theory Spec2Isabelle
  imports Complex_Main
begin

section \<open>Values of the HTTP layer\<close>

text \<open>
  A JavaScript value as the handlers see it in \<^verbatim>\<open>req.query\<close> and hand it to
  \<^verbatim>\<open>res.json\<close>. A number is carried by the rational value of its decimal rendering,
  which is what a JSON text holds and what the driver writes into a statement.
\<close>

datatype jsval =
    JUndefined
  | JNull
  | JBool bool
  | JNum rat
  | JNaN
  | JStr string
  | JArray "jsval list"
  | JObject "(string \<times> jsval) list"

text \<open>
  Reading a property of an object: \<^verbatim>\<open>const { cascade } = req.query\<close>. An object is
  the list of its properties, each name once.
\<close>

definition get_prop :: "(string \<times> jsval) list \<Rightarrow> string \<Rightarrow> jsval" where
  "get_prop obj k = (case map_of obj k of None \<Rightarrow> JUndefined | Some v \<Rightarrow> v)"

text \<open>
  A field of the body of a goal or trade request, whose type the API schema of the source
  fixes (a string for the name of a goal, numbers for amounts, prices and quantities, an
  integer for \<^verbatim>\<open>goal_id\<close>): absent, \<^verbatim>\<open>null\<close>, or a value of that type.
\<close>

datatype 'a field = Undefined | Null | Val 'a

text \<open>JavaScript truthiness, which \<^verbatim>\<open>!x\<close> and \<^verbatim>\<open>if (x)\<close> test.\<close>

fun truthy_str :: "string field \<Rightarrow> bool" where
  "truthy_str (Val s) = (s \<noteq> [])"
| "truthy_str _ = False"

fun truthy_num :: "rat field \<Rightarrow> bool" where
  "truthy_num (Val r) = (r \<noteq> 0)"
| "truthy_num _ = False"

fun truthy_int :: "int field \<Rightarrow> bool" where
  "truthy_int (Val i) = (i \<noteq> 0)"
| "truthy_int _ = False"

text \<open>Truthiness of any value: an array and an object are truthy, empty ones included.\<close>

fun truthy :: "jsval \<Rightarrow> bool" where
  "truthy JUndefined = False"
| "truthy JNull = False"
| "truthy (JBool b) = b"
| "truthy (JNum r) = (r \<noteq> 0)"
| "truthy JNaN = False"
| "truthy (JStr s) = (s \<noteq> [])"
| "truthy (JArray xs) = True"
| "truthy (JObject obj) = True"

text \<open>
  \<^verbatim>\<open>const { symbol, name, type, current_price } = req.body\<close> throws when \<^verbatim>\<open>req.body\<close>
  is \<^verbatim>\<open>undefined\<close> or \<^verbatim>\<open>null\<close>; of any other value it reads the properties, and one that
  is not there is \<^verbatim>\<open>undefined\<close>. An array, a string, a number and a boolean have none of
  the properties the handlers read.
\<close>

definition nullish :: "jsval \<Rightarrow> bool" where
  "nullish v = (v = JUndefined \<or> v = JNull)"

definition property :: "jsval \<Rightarrow> string \<Rightarrow> jsval" where
  "property v k = (case v of JObject obj \<Rightarrow> get_prop obj k | _ \<Rightarrow> JUndefined)"

record response =
  status :: nat
  body :: jsval

text \<open>\<^verbatim>\<open>res.status(st).json(v)\<close>; a bare \<^verbatim>\<open>res.json(v)\<close> has status 200.\<close>

definition json :: "nat \<Rightarrow> jsval \<Rightarrow> response" where
  "json st v = \<lparr>status = st, body = v\<rparr>"

definition error_body :: "string \<Rightarrow> jsval" where
  "error_body msg = JObject [(''error'', JStr msg)]"

definition message_body :: "string \<Rightarrow> jsval" where
  "message_body msg = JObject [(''message'', JStr msg)]"

text \<open>\<^verbatim>\<open>{...row, k: v}\<close>: the property is replaced where it stands, or added last.\<close>

fun set_prop :: "(string \<times> jsval) list \<Rightarrow> string \<Rightarrow> jsval \<Rightarrow> (string \<times> jsval) list" where
  "set_prop [] k v = [(k, v)]"
| "set_prop ((k', v') # obj) k v =
     (if k' = k then (k, v) # obj else (k', v') # set_prop obj k v)"

text \<open>
  Reading a string as a number, for the plain decimal forms a \<^verbatim>\<open>DECIMAL\<close> column is
  rendered in (an optional sign, digits, an optional point and digits); the empty string
  reads as 0 and any other string as \<^verbatim>\<open>NaN\<close>.
\<close>

definition digit_of :: "char \<Rightarrow> nat option" where
  "digit_of c = map_of (zip ''0123456789'' [0, 1, 2, 3, 4, 5, 6, 7, 8, 9]) c"

fun digits_val :: "string \<Rightarrow> nat \<Rightarrow> nat option" where
  "digits_val [] acc = Some acc"
| "digits_val (c # cs) acc =
     (case digit_of c of None \<Rightarrow> None | Some d \<Rightarrow> digits_val cs (10 * acc + d))"

definition parse_unsigned :: "string \<Rightarrow> rat option" where
  "parse_unsigned s =
     (let ip = takeWhile (\<lambda>c. c \<noteq> CHR ''.'') s;
          rest = dropWhile (\<lambda>c. c \<noteq> CHR ''.'') s
      in if ip = [] then None
         else case rest of
           [] \<Rightarrow> map_option of_nat (digits_val ip 0)
         | _ # fp \<Rightarrow>
             if fp = [] then None
             else (case (digits_val ip 0, digits_val fp 0) of
                     (Some a, Some b) \<Rightarrow> Some (of_nat a + of_nat b / 10 ^ length fp)
                   | _ \<Rightarrow> None))"

definition parse_decimal :: "string \<Rightarrow> rat option" where
  "parse_decimal s =
     (case s of
        [] \<Rightarrow> Some 0
      | c # cs \<Rightarrow>
          if c = CHR ''-'' then map_option uminus (parse_unsigned cs) else parse_unsigned s)"

text \<open>
  \<^verbatim>\<open>Number(v)\<close>. The handlers apply it to column values of a result row, which are
  strings, numbers or \<^verbatim>\<open>null\<close>; an array or object is given \<^verbatim>\<open>NaN\<close>.
\<close>

fun js_Number :: "jsval \<Rightarrow> jsval" where
  "js_Number (JNum r) = JNum r"
| "js_Number (JStr s) = (case parse_decimal s of Some r \<Rightarrow> JNum r | None \<Rightarrow> JNaN)"
| "js_Number JNull = JNum 0"
| "js_Number (JBool b) = JNum (if b then 1 else 0)"
| "js_Number _ = JNaN"

text \<open>\<^verbatim>\<open>{...row, k: Number(row.k)}\<close>\<close>

definition with_number :: "string \<Rightarrow> (string \<times> jsval) list \<Rightarrow> (string \<times> jsval) list" where
  "with_number k row = set_prop row k (js_Number (get_prop row k))"

text \<open>
  Numbers in arithmetic and comparison: \<^verbatim>\<open>ToNumber\<close> of a numeric field, where
  \<open>None\<close> is \<^verbatim>\<open>NaN\<close>. \<^verbatim>\<open>x <= 0\<close> is false of \<^verbatim>\<open>NaN\<close>.
\<close>

fun to_number :: "rat field \<Rightarrow> rat option" where
  "to_number Undefined = None"
| "to_number Null = Some 0"
| "to_number (Val r) = Some r"

definition le_zero :: "rat field \<Rightarrow> bool" where
  "le_zero x = (case to_number x of None \<Rightarrow> False | Some r \<Rightarrow> r \<le> 0)"

text \<open>
  \<^verbatim>\<open>x * y\<close> on two numbers. The handlers take the product as a parameter \<open>mul\<close>, so
  that what does not depend on the arithmetic is proved of any; \<open>double_mul\<close> below is
  the product of IEEE 754 doubles that the language computes.
\<close>

definition js_times :: "(rat \<Rightarrow> rat \<Rightarrow> rat) \<Rightarrow> rat field \<Rightarrow> rat field \<Rightarrow> rat option" where
  "js_times mul x y =
     (case (to_number x, to_number y) of
        (Some a, Some b) \<Rightarrow> Some (mul a b)
      | _ \<Rightarrow> None)"

subsection \<open>IEEE 754 doubles\<close>

text \<open>
  A finite double is the rational it denotes. \<open>to_double\<close> is the double nearest to a
  rational, ties to the even significand: \<open>binade\<close> scales the magnitude into
  \<open>[2 ^ 52, 2 ^ 53)\<close>, by at most 1074 doublings, which is where the subnormal numbers
  begin; a magnitude beyond the largest double is not modelled. This is what reading the
  number of a JSON text does, and what \<^verbatim>\<open>*\<close> does to the exact product.
\<close>

definition round_half_even :: "rat \<Rightarrow> int" where
  "round_half_even x =
     (let f = \<lfloor>x\<rfloor> in
      if x - of_int f < 1 / 2 then f
      else if 1 / 2 < x - of_int f then f + 1
      else if even f then f else f + 1)"

fun binade :: "nat \<Rightarrow> rat \<Rightarrow> int \<Rightarrow> rat \<times> int" where
  "binade fuel x e =
     (if fuel = 0 then (x, e)
      else if x < 2 ^ 52 then binade (fuel - 1) (2 * x) (e - 1)
      else if 2 ^ 53 \<le> x then binade (fuel - 1) (x / 2) (e + 1)
      else (x, e))"

definition to_double :: "rat \<Rightarrow> rat" where
  "to_double x =
     (if x = 0 then 0
      else case binade 1074 \<bar>x\<bar> 0 of
        (m, e) \<Rightarrow> sgn x * of_int (round_half_even m) * 2 powi e)"

text \<open>
  \<^verbatim>\<open>Number.prototype.toString\<close>, by which the driver writes a number into a statement:
  the decimal of the fewest significant digits that reads back as the same double, the
  nearest to it when there are two, the even one when they are as near. \<open>digits_for k\<close>
  looks among the decimals of \<open>k\<close> digits; seventeen digits always suffice. The server
  reads such a decimal as the exact value it is; a number that the driver writes with an
  exponent (below \<open>1e-6\<close>, or from \<open>1e21\<close>) it reads as an approximate value, whose
  rounding into a column is taken to be the same.
\<close>

fun decade :: "nat \<Rightarrow> nat \<Rightarrow> rat \<Rightarrow> int \<Rightarrow> rat \<times> int" where
  "decade fuel k x e =
     (if fuel = 0 then (x, e)
      else if x < 10 ^ (k - 1) then decade (fuel - 1) k (10 * x) (e - 1)
      else if 10 ^ k \<le> x then decade (fuel - 1) k (x / 10) (e + 1)
      else (x, e))"

definition digits_for :: "nat \<Rightarrow> rat \<Rightarrow> rat option" where
  "digits_for k d =
     (case decade 400 k d 0 of
        (m, e) \<Rightarrow>
          let lo = of_int \<lfloor>m\<rfloor> * 10 powi e;
              hi = of_int (\<lfloor>m\<rfloor> + 1) * 10 powi e;
              vlo = (to_double lo = d);
              vhi = (to_double hi = d)
          in if vlo \<and> vhi
             then (if d - lo < hi - d then Some lo
                   else if hi - d < d - lo then Some hi
                   else if even \<lfloor>m\<rfloor> then Some lo else Some hi)
             else if vlo then Some lo
             else if vhi then Some hi
             else None)"

fun shortest :: "nat \<Rightarrow> nat \<Rightarrow> rat \<Rightarrow> rat" where
  "shortest fuel k d =
     (if fuel = 0 then d
      else case digits_for k d of
        Some c \<Rightarrow> c
      | None \<Rightarrow> shortest (fuel - 1) (k + 1) d)"

definition render :: "rat \<Rightarrow> rat" where
  "render d = (if d = 0 then 0 else sgn d * shortest 17 1 \<bar>d\<bar>)"

text \<open>
  The product of two numbers given by their decimal renderings, as its decimal rendering.
\<close>

definition double_mul :: "rat \<Rightarrow> rat \<Rightarrow> rat" where
  "double_mul a b = render (to_double (to_double a * to_double b))"

text \<open>\<^verbatim>\<open>goal_id || null\<close>\<close>

definition or_null :: "int field \<Rightarrow> int field" where
  "or_null x = (if truthy_int x then x else Null)"

text \<open>
  The bodies of the goal and trade requests, after \<^verbatim>\<open>const { ... } = req.body\<close>. The
  body of an instrument request is taken as the value \<^verbatim>\<open>req.body\<close> is.
\<close>

record goal_body =
  b_goal_name :: "string field"
  b_target_amount :: "rat field"

record trade_body =
  quantity :: "rat field"
  price :: "rat field"
  goal_id :: "int field"

section \<open>The persistent store\<close>

text \<open>
  The three tables of \<^verbatim>\<open>run_setup.sql\<close>. A \<^verbatim>\<open>DECIMAL(p,s)\<close> column holds the integer
  \<open>value * 10 ^ s\<close>. Rows are kept in insertion order. The timestamp columns are left
  out: no statement of the handlers writes them and they only order the listings.
\<close>

record instrument =
  i_id :: int
  i_symbol :: string
  i_name :: string
  i_type :: string
  i_current_price :: int

record goal =
  g_id :: int
  g_name :: string
  g_target_amount :: int

datatype transaction_type = BUY | SELL

record trade =
  t_id :: int
  t_instrument_id :: int
  t_goal_id :: "int option"
  t_transaction_type :: transaction_type
  t_quantity :: int
  t_price :: int
  t_total_amount :: int

record db =
  instruments :: "instrument list"
  goals :: "goal list"
  trade_log :: "trade list"
  next_instrument_id :: int
  next_goal_id :: int
  next_trade_id :: int

text \<open>The statements the handlers send, by table and kind.\<close>

datatype stmt =
    SELECT_instruments
  | SELECT_instrument_by_id
  | INSERT_instrument
  | UPDATE_instrument
  | DELETE_instrument
  | SELECT_goals
  | SELECT_goal_by_id
  | INSERT_goal
  | UPDATE_goal
  | DELETE_goal
  | COUNT_trade_log_by_instrument
  | COUNT_trade_log_by_goal
  | DELETE_trade_log_by_instrument
  | INSERT_trade_log
  | SELECT_trade_log_joined
  | SELECT_trade_log_joined_by_id

text \<open>
  What a handler runs against: the tables, the statements sent so far, and a schedule of
  faults. \<^verbatim>\<open>db\<close> is a connection pool, so every \<^verbatim>\<open>db.query\<close> is a statement of its
  own, committed when it returns; no handler opens a transaction. The promise of
  \<^verbatim>\<open>db.query\<close> can reject: the schedule says, statement by statement, whether the server
  answers (\<open>None\<close>, also when the schedule has run out) or the statement is rejected
  with a message and without effect (lost connection, value outside a column's range or
  length, and whatever else the tables here do not decide).
\<close>

record world =
  store :: db
  faults :: "string option list"
  issued :: "stmt list"

definition db_query ::
  "stmt \<Rightarrow> (db \<Rightarrow> (string + 'a) \<times> db) \<Rightarrow> world \<Rightarrow> (string + 'a) \<times> world" where
  "db_query st act w =
     (let w1 = w\<lparr>faults := tl (faults w), issued := issued w @ [st]\<rparr> in
      case faults w of
        Some msg # _ \<Rightarrow> (Inl msg, w1)
      | _ \<Rightarrow> (case act (store w) of (r, d) \<Rightarrow> (r, w1\<lparr>store := d\<rparr>)))"

text \<open>The first \<open>n\<close> statements to come are answered.\<close>

fun answered :: "nat \<Rightarrow> string option list \<Rightarrow> bool" where
  "answered 0 fs = True"
| "answered (Suc n) [] = True"
| "answered (Suc n) (f # fs) = (f = None \<and> answered n fs)"

subsection \<open>Statements on \<^verbatim>\<open>trade_log\<close> and the deletions\<close>

text \<open>\<^verbatim>\<open>SELECT COUNT(*) as count FROM trade_log WHERE instrument_id = ?\<close>\<close>

definition count_trade_log_by_instrument :: "int \<Rightarrow> db \<Rightarrow> (string + nat) \<times> db" where
  "count_trade_log_by_instrument ident d =
     (Inr (length (filter (\<lambda>t. t_instrument_id t = ident) (trade_log d))), d)"

text \<open>\<^verbatim>\<open>SELECT COUNT(*) as count FROM trade_log WHERE goal_id = ?\<close>\<close>

definition count_trade_log_by_goal :: "int \<Rightarrow> db \<Rightarrow> (string + nat) \<times> db" where
  "count_trade_log_by_goal ident d =
     (Inr (length (filter (\<lambda>t. t_goal_id t = Some ident) (trade_log d))), d)"

text \<open>\<^verbatim>\<open>DELETE FROM trade_log WHERE instrument_id = ?\<close>; the result is \<^verbatim>\<open>affectedRows\<close>.\<close>

definition delete_trade_log_by_instrument :: "int \<Rightarrow> db \<Rightarrow> (string + nat) \<times> db" where
  "delete_trade_log_by_instrument ident d =
     (Inr (length (filter (\<lambda>t. t_instrument_id t = ident) (trade_log d))),
      d\<lparr>trade_log := filter (\<lambda>t. t_instrument_id t \<noteq> ident) (trade_log d)\<rparr>)"

text \<open>
  \<^verbatim>\<open>DELETE FROM instruments WHERE id = ?\<close>. The foreign key of \<^verbatim>\<open>trade_log\<close> has no
  \<^verbatim>\<open>ON DELETE\<close> clause, so the server refuses to delete a row that is still referenced.
\<close>

definition delete_instrument_row :: "int \<Rightarrow> db \<Rightarrow> (string + nat) \<times> db" where
  "delete_instrument_row ident d =
     (if filter (\<lambda>i. i_id i = ident) (instruments d) \<noteq> [] \<and>
         filter (\<lambda>t. t_instrument_id t = ident) (trade_log d) \<noteq> []
      then (Inl ''ER_ROW_IS_REFERENCED_2'', d)
      else (Inr (length (filter (\<lambda>i. i_id i = ident) (instruments d))),
            d\<lparr>instruments := filter (\<lambda>i. i_id i \<noteq> ident) (instruments d)\<rparr>))"

text \<open>\<^verbatim>\<open>DELETE FROM goals WHERE id = ?\<close>, under the same kind of foreign key.\<close>

definition delete_goal_row :: "int \<Rightarrow> db \<Rightarrow> (string + nat) \<times> db" where
  "delete_goal_row ident d =
     (if filter (\<lambda>g. g_id g = ident) (goals d) \<noteq> [] \<and>
         filter (\<lambda>t. t_goal_id t = Some ident) (trade_log d) \<noteq> []
      then (Inl ''ER_ROW_IS_REFERENCED_2'', d)
      else (Inr (length (filter (\<lambda>g. g_id g = ident) (goals d))),
            d\<lparr>goals := filter (\<lambda>g. g_id g \<noteq> ident) (goals d)\<rparr>))"

subsection \<open>Decimal columns\<close>

text \<open>
  A number written into a \<^verbatim>\<open>DECIMAL(p,s)\<close> column is rounded to \<open>s\<close> places, half
  away from zero. The driver hands a decimal column back as a string of its digits.
\<close>

definition round_half_away :: "rat \<Rightarrow> int" where
  "round_half_away r = (if 0 \<le> r then \<lfloor>r + 1 / 2\<rfloor> else - \<lfloor>- r + 1 / 2\<rfloor>)"

definition to_decimal :: "nat \<Rightarrow> rat \<Rightarrow> int" where
  "to_decimal s r = round_half_away (r * 10 ^ s)"

fun show_nat :: "nat \<Rightarrow> string" where
  "show_nat n =
     (if n < 10 then [''0123456789'' ! n]
      else show_nat (n div 10) @ [''0123456789'' ! (n mod 10)])"

definition decimal_string :: "nat \<Rightarrow> int \<Rightarrow> string" where
  "decimal_string s u =
     (let a = nat \<bar>u\<bar>; ds = show_nat (a mod 10 ^ s)
      in (if u < 0 then ''-'' else []) @ show_nat (a div 10 ^ s) @
         (if s = 0 then [] else ''.'' @ replicate (s - length ds) CHR ''0'' @ ds))"

subsection \<open>Result rows\<close>

definition instrument_row :: "instrument \<Rightarrow> (string \<times> jsval) list" where
  "instrument_row i =
     [(''id'', JNum (of_int (i_id i))),
      (''symbol'', JStr (i_symbol i)),
      (''name'', JStr (i_name i)),
      (''type'', JStr (i_type i)),
      (''current_price'', JStr (decimal_string 4 (i_current_price i)))]"

definition goal_row :: "goal \<Rightarrow> (string \<times> jsval) list" where
  "goal_row g =
     [(''id'', JNum (of_int (g_id g))),
      (''name'', JStr (g_name g)),
      (''target_amount'', JStr (decimal_string 2 (g_target_amount g)))]"

definition kind_name :: "transaction_type \<Rightarrow> string" where
  "kind_name k = (case k of BUY \<Rightarrow> ''BUY'' | SELL \<Rightarrow> ''SELL'')"

text \<open>
  A row of \<^verbatim>\<open>trade_log tl LEFT JOIN instruments i ... LEFT JOIN goals g ...\<close> with
  the columns \<^verbatim>\<open>tl.*, i.symbol as instrument_symbol, i.name as instrument_name,
  i.type as instrument_type, g.name as goal_name\<close>; a side without a match is \<^verbatim>\<open>NULL\<close>.
\<close>

definition joined_row :: "trade \<Rightarrow> instrument option \<Rightarrow> goal option \<Rightarrow> (string \<times> jsval) list" where
  "joined_row t i g =
     [(''id'', JNum (of_int (t_id t))),
      (''instrument_id'', JNum (of_int (t_instrument_id t))),
      (''goal_id'', (case t_goal_id t of None \<Rightarrow> JNull | Some x \<Rightarrow> JNum (of_int x))),
      (''transaction_type'', JStr (kind_name (t_transaction_type t))),
      (''quantity'', JStr (decimal_string 4 (t_quantity t))),
      (''price'', JStr (decimal_string 4 (t_price t))),
      (''total_amount'', JStr (decimal_string 2 (t_total_amount t))),
      (''instrument_symbol'', (case i of None \<Rightarrow> JNull | Some x \<Rightarrow> JStr (i_symbol x))),
      (''instrument_name'', (case i of None \<Rightarrow> JNull | Some x \<Rightarrow> JStr (i_name x))),
      (''instrument_type'', (case i of None \<Rightarrow> JNull | Some x \<Rightarrow> JStr (i_type x))),
      (''goal_name'', (case g of None \<Rightarrow> JNull | Some x \<Rightarrow> JStr (g_name x)))]"

definition left_side :: "'a list \<Rightarrow> 'a option list" where
  "left_side xs = (if xs = [] then [None] else map Some xs)"

definition joined :: "db \<Rightarrow> trade \<Rightarrow> (string \<times> jsval) list list" where
  "joined d t =
     concat (map (\<lambda>i. map (\<lambda>g. joined_row t i g)
                    (left_side (filter (\<lambda>g. t_goal_id t = Some (g_id g)) (goals d))))
               (left_side (filter (\<lambda>i. i_id i = t_instrument_id t) (instruments d))))"

subsection \<open>Statements on \<^verbatim>\<open>instruments\<close>\<close>

text \<open>
  \<^verbatim>\<open>SELECT * FROM instruments ORDER BY created_at DESC\<close>: the newest row first, as far
  as the timestamps tell the rows apart.
\<close>

definition select_instruments :: "db \<Rightarrow> (string + (string \<times> jsval) list list) \<times> db" where
  "select_instruments d = (Inr (map instrument_row (rev (instruments d))), d)"

text \<open>
  \<^verbatim>\<open>SELECT * FROM instruments WHERE id = ?\<close> and
  \<^verbatim>\<open>SELECT id, symbol, name FROM instruments WHERE id = ?\<close>
\<close>

definition select_instrument_by_id :: "int \<Rightarrow> db \<Rightarrow> (string + (string \<times> jsval) list list) \<times> db" where
  "select_instrument_by_id ident d =
     (Inr (map instrument_row (filter (\<lambda>i. i_id i = ident) (instruments d))), d)"

definition select_instrument_id_symbol_name ::
  "int \<Rightarrow> db \<Rightarrow> (string + (string \<times> jsval) list list) \<times> db" where
  "select_instrument_id_symbol_name ident d =
     (Inr (map (\<lambda>i. take 3 (instrument_row i)) (filter (\<lambda>i. i_id i = ident) (instruments d))), d)"

text \<open>
  A value as the parameter of a statement on \<^verbatim>\<open>instruments\<close>: a string for a text
  column, a number for the decimal column. \<^verbatim>\<open>undefined\<close> and \<^verbatim>\<open>null\<close> are written
  as \<^verbatim>\<open>NULL\<close>, which a \<^verbatim>\<open>NOT NULL\<close> column refuses. What the driver and the server
  make of a value of another type (a number for a symbol, a string for a price) is not
  modelled: a statement with such a value is taken as rejected.
\<close>

definition sql_text :: "jsval \<Rightarrow> string option" where
  "sql_text v = (case v of JStr s \<Rightarrow> Some s | _ \<Rightarrow> None)"

definition sql_number :: "jsval \<Rightarrow> rat option" where
  "sql_number v = (case v of JNum r \<Rightarrow> Some r | _ \<Rightarrow> None)"

definition bad_value :: "jsval list \<Rightarrow> string" where
  "bad_value vs =
     (if filter nullish vs \<noteq> [] then ''ER_BAD_NULL_ERROR'' else ''ER_TRUNCATED_WRONG_VALUE'')"

text \<open>
  \<^verbatim>\<open>INSERT INTO instruments (symbol, name, type, current_price) VALUES (?, ?, ?, ?)\<close>;
  the result is \<^verbatim>\<open>insertId\<close>. All four columns are \<^verbatim>\<open>NOT NULL\<close>, the symbol is
  \<^verbatim>\<open>UNIQUE\<close>, the id is \<^verbatim>\<open>AUTO_INCREMENT\<close>.
\<close>

definition insert_instrument ::
  "jsval \<Rightarrow> jsval \<Rightarrow> jsval \<Rightarrow> jsval \<Rightarrow> db \<Rightarrow> (string + int) \<times> db" where
  "insert_instrument symbol name type current_price d =
     (case (sql_text symbol, sql_text name, sql_text type, sql_number current_price) of
        (Some s, Some n, Some t, Some p) \<Rightarrow>
          if filter (\<lambda>i. i_symbol i = s) (instruments d) \<noteq> [] then (Inl ''ER_DUP_ENTRY'', d)
          else (Inr (next_instrument_id d),
                d\<lparr>instruments := instruments d @
                     [\<lparr>i_id = next_instrument_id d, i_symbol = s, i_name = n, i_type = t,
                       i_current_price = to_decimal 4 p\<rparr>],
                   next_instrument_id := next_instrument_id d + 1\<rparr>)
      | _ \<Rightarrow> (Inl (bad_value [symbol, name, type, current_price]), d))"

text \<open>
  \<^verbatim>\<open>UPDATE instruments SET symbol = ?, name = ?, type = ?, current_price = ? WHERE id = ?\<close>;
  the result is \<^verbatim>\<open>affectedRows\<close>, the number of rows the \<^verbatim>\<open>WHERE\<close> clause matches.
\<close>

definition update_instrument ::
  "jsval \<Rightarrow> jsval \<Rightarrow> jsval \<Rightarrow> jsval \<Rightarrow> int \<Rightarrow> db \<Rightarrow> (string + nat) \<times> db" where
  "update_instrument symbol name type current_price ident d =
     (if filter (\<lambda>i. i_id i = ident) (instruments d) = [] then (Inr 0, d)
      else case (sql_text symbol, sql_text name, sql_text type, sql_number current_price) of
        (Some s, Some n, Some t, Some p) \<Rightarrow>
          if filter (\<lambda>i. i_symbol i = s \<and> i_id i \<noteq> ident) (instruments d) \<noteq> []
          then (Inl ''ER_DUP_ENTRY'', d)
          else (Inr (length (filter (\<lambda>i. i_id i = ident) (instruments d))),
                d\<lparr>instruments :=
                     map (\<lambda>i. if i_id i = ident
                               then i\<lparr>i_symbol := s, i_name := n, i_type := t,
                                      i_current_price := to_decimal 4 p\<rparr>
                               else i)
                       (instruments d)\<rparr>)
      | _ \<Rightarrow> (Inl (bad_value [symbol, name, type, current_price]), d))"

subsection \<open>Statements on \<^verbatim>\<open>goals\<close>\<close>

text \<open>\<^verbatim>\<open>SELECT * FROM goals ORDER BY created_at DESC\<close>\<close>

definition select_goals :: "db \<Rightarrow> (string + (string \<times> jsval) list list) \<times> db" where
  "select_goals d = (Inr (map goal_row (rev (goals d))), d)"

text \<open>\<^verbatim>\<open>SELECT * FROM goals WHERE id = ?\<close>\<close>

definition select_goal_by_id :: "int \<Rightarrow> db \<Rightarrow> (string + (string \<times> jsval) list list) \<times> db" where
  "select_goal_by_id ident d =
     (Inr (map goal_row (filter (\<lambda>g. g_id g = ident) (goals d))), d)"

text \<open>
  \<^verbatim>\<open>SELECT id FROM goals WHERE id = ?\<close> with the \<^verbatim>\<open>goal_id\<close> of a body; nothing equals
  \<^verbatim>\<open>NULL\<close>.
\<close>

definition select_goal_id :: "int field \<Rightarrow> db \<Rightarrow> (string + (string \<times> jsval) list list) \<times> db" where
  "select_goal_id x d =
     (case x of
        Val ident \<Rightarrow>
          (Inr (map (\<lambda>g. take 1 (goal_row g)) (filter (\<lambda>g. g_id g = ident) (goals d))), d)
      | _ \<Rightarrow> (Inr [], d))"

text \<open>\<^verbatim>\<open>INSERT INTO goals (name, target_amount) VALUES (?, ?)\<close>\<close>

definition insert_goal :: "string field \<Rightarrow> rat field \<Rightarrow> db \<Rightarrow> (string + int) \<times> db" where
  "insert_goal name target_amount d =
     (case (name, target_amount) of
        (Val n, Val a) \<Rightarrow>
          (Inr (next_goal_id d),
           d\<lparr>goals := goals d @
                [\<lparr>g_id = next_goal_id d, g_name = n, g_target_amount = to_decimal 2 a\<rparr>],
             next_goal_id := next_goal_id d + 1\<rparr>)
      | _ \<Rightarrow> (Inl ''ER_BAD_NULL_ERROR'', d))"

text \<open>\<^verbatim>\<open>UPDATE goals SET name = ?, target_amount = ? WHERE id = ?\<close>\<close>

definition update_goal :: "string field \<Rightarrow> rat field \<Rightarrow> int \<Rightarrow> db \<Rightarrow> (string + nat) \<times> db" where
  "update_goal name target_amount ident d =
     (if filter (\<lambda>g. g_id g = ident) (goals d) = [] then (Inr 0, d)
      else case (name, target_amount) of
        (Val n, Val a) \<Rightarrow>
          (Inr (length (filter (\<lambda>g. g_id g = ident) (goals d))),
           d\<lparr>goals :=
                map (\<lambda>g. if g_id g = ident
                          then g\<lparr>g_name := n, g_target_amount := to_decimal 2 a\<rparr>
                          else g)
                  (goals d)\<rparr>)
      | _ \<Rightarrow> (Inl ''ER_BAD_NULL_ERROR'', d))"

subsection \<open>Inserting into and reading \<^verbatim>\<open>trade_log\<close>\<close>

text \<open>
  \<^verbatim>\<open>INSERT INTO trade_log (instrument_id, goal_id, transaction_type, quantity, price,
  total_amount) VALUES (?, ?, ?, ?, ?, ?)\<close>. Every column but \<^verbatim>\<open>goal_id\<close> is
  \<^verbatim>\<open>NOT NULL\<close>; \<^verbatim>\<open>NaN\<close> is no value the server reads; both foreign keys are checked.
\<close>

definition insert_trade_log ::
  "int \<Rightarrow> int field \<Rightarrow> transaction_type \<Rightarrow> rat field \<Rightarrow> rat field \<Rightarrow> rat option \<Rightarrow> db
     \<Rightarrow> (string + int) \<times> db" where
  "insert_trade_log instrument_id goal kind q p total_amount d =
     (case (q, p, total_amount) of
        (Val qv, Val pv, Some tv) \<Rightarrow>
          if filter (\<lambda>i. i_id i = instrument_id) (instruments d) = [] \<or>
             (case goal of
                Val g \<Rightarrow> filter (\<lambda>x. g_id x = g) (goals d) = []
              | _ \<Rightarrow> False)
          then (Inl ''ER_NO_REFERENCED_ROW_2'', d)
          else (Inr (next_trade_id d),
                d\<lparr>trade_log := trade_log d @
                     [\<lparr>t_id = next_trade_id d, t_instrument_id = instrument_id,
                       t_goal_id = (case goal of Val g \<Rightarrow> Some g | _ \<Rightarrow> None),
                       t_transaction_type = kind,
                       t_quantity = to_decimal 4 qv, t_price = to_decimal 4 pv,
                       t_total_amount = to_decimal 2 tv\<rparr>],
                   next_trade_id := next_trade_id d + 1\<rparr>)
      | (_, _, None) \<Rightarrow> (Inl ''ER_BAD_FIELD_ERROR'', d)
      | _ \<Rightarrow> (Inl ''ER_BAD_NULL_ERROR'', d))"

text \<open>The joined listing, \<^verbatim>\<open>ORDER BY tl.created_at DESC\<close>, and one entry of it by id.\<close>

definition select_trade_log_joined :: "db \<Rightarrow> (string + (string \<times> jsval) list list) \<times> db" where
  "select_trade_log_joined d = (Inr (concat (map (joined d) (rev (trade_log d)))), d)"

definition select_trade_log_joined_by_id ::
  "int \<Rightarrow> db \<Rightarrow> (string + (string \<times> jsval) list list) \<times> db" where
  "select_trade_log_joined_by_id ident d =
     (Inr (concat (map (joined d) (filter (\<lambda>t. t_id t = ident) (trade_log d)))), d)"

section \<open>The handlers\<close>

text \<open>
  Each handler takes the path parameter (the integer it denotes), the parsed query string
  or body, and the world; it returns the response and the world after it. A rejected
  statement is the \<^verbatim>\<open>catch\<close> branch: status 500 with the message.
\<close>

definition conflict_instrument :: string where
  "conflict_instrument =
     ''Cannot delete instrument with existing trade history. Please delete all related trade logs first or use ?cascade=true parameter.''"

definition conflict_goal :: string where
  "conflict_goal =
     ''Cannot delete goal with existing trade history. Please delete all related trade logs first.''"

text \<open>
  \<^verbatim>\<open>instrument[0].current_price\<close> and \<^verbatim>\<open>goal[0].target_amount\<close> throw when the
  re-read finds no row; the \<^verbatim>\<open>catch\<close> branch answers with the exception's message, for
  which this text stands.
\<close>

definition type_error :: string where
  "type_error = ''TypeError: cannot read properties of undefined''"

text \<open>\<^verbatim>\<open>app.get('/instruments', ...)\<close>\<close>

definition get_instruments :: "world \<Rightarrow> response \<times> world" where
  "get_instruments w =
     (case db_query SELECT_instruments select_instruments w of
        (Inl err, w1) \<Rightarrow> (json 500 (error_body err), w1)
      | (Inr rows, w1) \<Rightarrow>
          (json 200 (JArray (map (\<lambda>row. JObject (with_number ''current_price'' row)) rows)), w1))"

text \<open>\<^verbatim>\<open>app.get('/instruments/:id', ...)\<close>\<close>

definition get_instrument :: "int \<Rightarrow> world \<Rightarrow> response \<times> world" where
  "get_instrument ident w =
     (case db_query SELECT_instrument_by_id (select_instrument_by_id ident) w of
        (Inl err, w1) \<Rightarrow> (json 500 (error_body err), w1)
      | (Inr rows, w1) \<Rightarrow>
          (case rows of
             [] \<Rightarrow> (json 404 (error_body ''Instrument not found''), w1)
           | row # _ \<Rightarrow> (json 200 (JObject (with_number ''current_price'' row)), w1)))"

text \<open>
  The destructuring of \<^verbatim>\<open>req.body\<close> stands before \<^verbatim>\<open>try\<close>. When the body parser has
  left \<^verbatim>\<open>req.body\<close> undefined, the handler throws there and sends nothing; the error
  handler of the framework answers 500 with a page of its own, for which
  \<^verbatim>\<open>undefined\<close> stands.
\<close>

definition uncaught :: response where
  "uncaught = \<lparr>status = 500, body = JUndefined\<rparr>"

text \<open>\<^verbatim>\<open>app.post('/instruments', ...)\<close>\<close>

definition post_instruments :: "jsval \<Rightarrow> world \<Rightarrow> response \<times> world" where
  "post_instruments req_body w =
     (if nullish req_body then (uncaught, w)
      else
        let symbol = property req_body ''symbol'';
            name = property req_body ''name'';
            type = property req_body ''type'';
            current_price = property req_body ''current_price''
        in
        if \<not> truthy symbol \<or> \<not> truthy name \<or> \<not> truthy type \<or> \<not> truthy current_price
        then (json 400 (error_body ''All fields are required''), w)
        else if type \<notin> set [JStr ''STOCK'', JStr ''MF'', JStr ''GOLD'']
        then (json 400 (error_body ''Type must be STOCK, MF, or GOLD''), w)
        else
          (case db_query INSERT_instrument
                  (insert_instrument symbol name type current_price) w of
             (Inl err, w1) \<Rightarrow> (json 500 (error_body err), w1)
           | (Inr insertId, w1) \<Rightarrow>
               (case db_query SELECT_instrument_by_id (select_instrument_by_id insertId) w1 of
                  (Inl err, w2) \<Rightarrow> (json 500 (error_body err), w2)
                | (Inr rows, w2) \<Rightarrow>
                    (case rows of
                       [] \<Rightarrow> (json 500 (error_body type_error), w2)
                     | row # _ \<Rightarrow>
                         (json 201 (JObject (with_number ''current_price'' row)), w2)))))"

text \<open>\<^verbatim>\<open>app.put('/instruments/:id', ...)\<close>\<close>

definition put_instrument :: "int \<Rightarrow> jsval \<Rightarrow> world \<Rightarrow> response \<times> world" where
  "put_instrument ident req_body w =
     (if nullish req_body then (uncaught, w)
      else
        let symbol = property req_body ''symbol'';
            name = property req_body ''name'';
            type = property req_body ''type'';
            current_price = property req_body ''current_price''
        in
        if \<not> truthy symbol \<or> \<not> truthy name \<or> \<not> truthy type \<or> \<not> truthy current_price
        then (json 400 (error_body ''All fields are required''), w)
        else if type \<notin> set [JStr ''STOCK'', JStr ''MF'', JStr ''GOLD'']
        then (json 400 (error_body ''Type must be STOCK, MF, or GOLD''), w)
        else
          (case db_query UPDATE_instrument
                  (update_instrument symbol name type current_price ident) w of
             (Inl err, w1) \<Rightarrow> (json 500 (error_body err), w1)
           | (Inr affectedRows, w1) \<Rightarrow>
               if affectedRows = 0 then (json 404 (error_body ''Instrument not found''), w1)
               else
                 (case db_query SELECT_instrument_by_id (select_instrument_by_id ident) w1 of
                    (Inl err, w2) \<Rightarrow> (json 500 (error_body err), w2)
                  | (Inr rows, w2) \<Rightarrow>
                      (case rows of
                         [] \<Rightarrow> (json 500 (error_body type_error), w2)
                       | row # _ \<Rightarrow>
                           (json 200 (JObject (with_number ''current_price'' row)), w2)))))"

text \<open>\<^verbatim>\<open>app.delete('/instruments/:id', ...)\<close>\<close>

definition delete_instrument ::
  "int \<Rightarrow> (string \<times> jsval) list \<Rightarrow> world \<Rightarrow> response \<times> world" where
  "delete_instrument ident query w =
     (let cascade = get_prop query ''cascade'' in
      case db_query COUNT_trade_log_by_instrument (count_trade_log_by_instrument ident) w of
        (Inl err, w1) \<Rightarrow> (json 500 (error_body err), w1)
      | (Inr count, w1) \<Rightarrow>
          if count > 0 then
            (if cascade = JStr ''true'' then
               (case db_query DELETE_trade_log_by_instrument
                       (delete_trade_log_by_instrument ident) w1 of
                  (Inl err, w2) \<Rightarrow> (json 500 (error_body err), w2)
                | (Inr _, w2) \<Rightarrow>
                    (case db_query DELETE_instrument (delete_instrument_row ident) w2 of
                       (Inl err, w3) \<Rightarrow> (json 500 (error_body err), w3)
                     | (Inr affectedRows, w3) \<Rightarrow>
                         if affectedRows = 0
                         then (json 404 (error_body ''Instrument not found''), w3)
                         else (json 200
                                 (message_body ''Instrument and associated trade logs deleted''),
                               w3)))
             else (json 400 (error_body conflict_instrument), w1))
          else
            (case db_query DELETE_instrument (delete_instrument_row ident) w1 of
               (Inl err, w2) \<Rightarrow> (json 500 (error_body err), w2)
             | (Inr affectedRows, w2) \<Rightarrow>
                 if affectedRows = 0
                 then (json 404 (error_body ''Instrument not found''), w2)
                 else (json 200 (message_body ''Instrument deleted''), w2)))"

text \<open>\<^verbatim>\<open>app.get('/goals', ...)\<close>\<close>

definition get_goals :: "world \<Rightarrow> response \<times> world" where
  "get_goals w =
     (case db_query SELECT_goals select_goals w of
        (Inl err, w1) \<Rightarrow> (json 500 (error_body err), w1)
      | (Inr rows, w1) \<Rightarrow>
          (json 200 (JArray (map (\<lambda>row. JObject (with_number ''target_amount'' row)) rows)), w1))"

text \<open>\<^verbatim>\<open>app.get('/goals/:id', ...)\<close>\<close>

definition get_goal :: "int \<Rightarrow> world \<Rightarrow> response \<times> world" where
  "get_goal ident w =
     (case db_query SELECT_goal_by_id (select_goal_by_id ident) w of
        (Inl err, w1) \<Rightarrow> (json 500 (error_body err), w1)
      | (Inr rows, w1) \<Rightarrow>
          (case rows of
             [] \<Rightarrow> (json 404 (error_body ''Goal not found''), w1)
           | row # _ \<Rightarrow> (json 200 (JObject (with_number ''target_amount'' row)), w1)))"

text \<open>\<^verbatim>\<open>app.post('/goals', ...)\<close>\<close>

definition post_goals :: "goal_body \<Rightarrow> world \<Rightarrow> response \<times> world" where
  "post_goals b w =
     (if \<not> truthy_str (b_goal_name b) \<or> \<not> truthy_num (b_target_amount b)
      then (json 400 (error_body ''All fields are required''), w)
      else
        (case db_query INSERT_goal (insert_goal (b_goal_name b) (b_target_amount b)) w of
           (Inl err, w1) \<Rightarrow> (json 500 (error_body err), w1)
         | (Inr insertId, w1) \<Rightarrow>
             (case db_query SELECT_goal_by_id (select_goal_by_id insertId) w1 of
                (Inl err, w2) \<Rightarrow> (json 500 (error_body err), w2)
              | (Inr rows, w2) \<Rightarrow>
                  (case rows of
                     [] \<Rightarrow> (json 500 (error_body type_error), w2)
                   | row # _ \<Rightarrow>
                       (json 201 (JObject (with_number ''target_amount'' row)), w2)))))"

text \<open>\<^verbatim>\<open>app.put('/goals/:id', ...)\<close>\<close>

definition put_goal :: "int \<Rightarrow> goal_body \<Rightarrow> world \<Rightarrow> response \<times> world" where
  "put_goal ident b w =
     (if \<not> truthy_str (b_goal_name b) \<or> \<not> truthy_num (b_target_amount b)
      then (json 400 (error_body ''All fields are required''), w)
      else
        (case db_query UPDATE_goal (update_goal (b_goal_name b) (b_target_amount b) ident) w of
           (Inl err, w1) \<Rightarrow> (json 500 (error_body err), w1)
         | (Inr affectedRows, w1) \<Rightarrow>
             if affectedRows = 0 then (json 404 (error_body ''Goal not found''), w1)
             else
               (case db_query SELECT_goal_by_id (select_goal_by_id ident) w1 of
                  (Inl err, w2) \<Rightarrow> (json 500 (error_body err), w2)
                | (Inr rows, w2) \<Rightarrow>
                    (case rows of
                       [] \<Rightarrow> (json 500 (error_body type_error), w2)
                     | row # _ \<Rightarrow>
                         (json 200 (JObject (with_number ''target_amount'' row)), w2)))))"

text \<open>\<^verbatim>\<open>app.delete('/goals/:id', ...)\<close>; the handler reads nothing of the query string.\<close>

definition delete_goal ::
  "int \<Rightarrow> (string \<times> jsval) list \<Rightarrow> world \<Rightarrow> response \<times> world" where
  "delete_goal ident query w =
     (case db_query COUNT_trade_log_by_goal (count_trade_log_by_goal ident) w of
        (Inl err, w1) \<Rightarrow> (json 500 (error_body err), w1)
      | (Inr count, w1) \<Rightarrow>
          if count > 0 then (json 400 (error_body conflict_goal), w1)
          else
            (case db_query DELETE_goal (delete_goal_row ident) w1 of
               (Inl err, w2) \<Rightarrow> (json 500 (error_body err), w2)
             | (Inr affectedRows, w2) \<Rightarrow>
                 if affectedRows = 0
                 then (json 404 (error_body ''Goal not found''), w2)
                 else (json 200 (message_body ''Goal deleted''), w2)))"

text \<open>\<^verbatim>\<open>app.get('/trade-log', ...)\<close>\<close>

definition get_trade_log :: "world \<Rightarrow> response \<times> world" where
  "get_trade_log w =
     (case db_query SELECT_trade_log_joined select_trade_log_joined w of
        (Inl err, w1) \<Rightarrow> (json 500 (error_body err), w1)
      | (Inr rows, w1) \<Rightarrow>
          (json 200
             (JArray (map (\<lambda>row. JObject (with_number ''total_amount''
                                     (with_number ''price'' (with_number ''quantity'' row))))
                        rows)),
           w1))"

text \<open>
  \<^verbatim>\<open>app.post('/instruments/:id/buy', ...)\<close> and \<^verbatim>\<open>app.post('/instruments/:id/sell', ...)\<close>
  are the same text but for the literal \<^verbatim>\<open>'BUY'\<close> or \<^verbatim>\<open>'SELL'\<close> of the insertion, here
  \<open>kind\<close>. \<open>record_trade\<close> is the handler from \<^verbatim>\<open>const total_amount = ...\<close> on.
\<close>

definition record_trade ::
  "(rat \<Rightarrow> rat \<Rightarrow> rat) \<Rightarrow> transaction_type \<Rightarrow> int \<Rightarrow> trade_body \<Rightarrow> world \<Rightarrow> response \<times> world" where
  "record_trade mul kind ident b w =
     (let total_amount = js_times mul (quantity b) (price b) in
      case db_query INSERT_trade_log
             (insert_trade_log ident (or_null (goal_id b)) kind (quantity b) (price b)
                total_amount) w of
        (Inl err, w1) \<Rightarrow> (json 500 (error_body err), w1)
      | (Inr insertId, w1) \<Rightarrow>
          (case db_query SELECT_trade_log_joined_by_id
                  (select_trade_log_joined_by_id insertId) w1 of
             (Inl err, w2) \<Rightarrow> (json 500 (error_body err), w2)
           | (Inr tradeLog, w2) \<Rightarrow>
               (json 201 (case tradeLog of [] \<Rightarrow> JUndefined | row # _ \<Rightarrow> JObject row), w2)))"

definition trade ::
  "(rat \<Rightarrow> rat \<Rightarrow> rat) \<Rightarrow> transaction_type \<Rightarrow> int \<Rightarrow> trade_body \<Rightarrow> world \<Rightarrow> response \<times> world" where
  "trade mul kind ident b w =
     (if \<not> truthy_num (quantity b) \<or> \<not> truthy_num (price b)
      then (json 400 (error_body ''quantity and price are required''), w)
      else if le_zero (quantity b) \<or> le_zero (price b)
      then (json 400 (error_body ''quantity and price must be positive''), w)
      else
        (case db_query SELECT_instrument_by_id (select_instrument_id_symbol_name ident) w of
           (Inl err, w1) \<Rightarrow> (json 500 (error_body err), w1)
         | (Inr instrument, w1) \<Rightarrow>
             if instrument = [] then (json 404 (error_body ''Instrument not found''), w1)
             else if truthy_int (goal_id b) then
               (case db_query SELECT_goal_by_id (select_goal_id (goal_id b)) w1 of
                  (Inl err, w2) \<Rightarrow> (json 500 (error_body err), w2)
                | (Inr goal, w2) \<Rightarrow>
                    if goal = [] then (json 400 (error_body ''Goal not found''), w2)
                    else record_trade mul kind ident b w2)
             else record_trade mul kind ident b w1))"

definition post_buy ::
  "(rat \<Rightarrow> rat \<Rightarrow> rat) \<Rightarrow> int \<Rightarrow> trade_body \<Rightarrow> world \<Rightarrow> response \<times> world" where
  "post_buy mul ident b w = trade mul BUY ident b w"

definition post_sell ::
  "(rat \<Rightarrow> rat \<Rightarrow> rat) \<Rightarrow> int \<Rightarrow> trade_body \<Rightarrow> world \<Rightarrow> response \<times> world" where
  "post_sell mul ident b w = trade mul SELL ident b w"

section \<open>The routes\<close>

text \<open>The thirteen routes the application registers, and the handler of each.\<close>

datatype operation =
    ListInstruments
  | GetInstrument int
  | CreateInstrument jsval
  | UpdateInstrument int jsval
  | DeleteInstrument int "(string \<times> jsval) list"
  | ListGoals
  | GetGoal int
  | CreateGoal goal_body
  | UpdateGoal int goal_body
  | DeleteGoal int "(string \<times> jsval) list"
  | ListTradeLog
  | Buy int trade_body
  | Sell int trade_body

fun handle :: "(rat \<Rightarrow> rat \<Rightarrow> rat) \<Rightarrow> operation \<Rightarrow> world \<Rightarrow> response \<times> world" where
  "handle mul ListInstruments w = get_instruments w"
| "handle mul (GetInstrument ident) w = get_instrument ident w"
| "handle mul (CreateInstrument b) w = post_instruments b w"
| "handle mul (UpdateInstrument ident b) w = put_instrument ident b w"
| "handle mul (DeleteInstrument ident query) w = delete_instrument ident query w"
| "handle mul ListGoals w = get_goals w"
| "handle mul (GetGoal ident) w = get_goal ident w"
| "handle mul (CreateGoal b) w = post_goals b w"
| "handle mul (UpdateGoal ident b) w = put_goal ident b w"
| "handle mul (DeleteGoal ident query) w = delete_goal ident query w"
| "handle mul ListTradeLog w = get_trade_log w"
| "handle mul (Buy ident b) w = post_buy mul ident b w"
| "handle mul (Sell ident b) w = post_sell mul ident b w"

section \<open>A scenario\<close>

text \<open>
  The store after the first two steps of the scenario of the specification: instrument 1
  (XYZ, at 100.0000) and one purchase of 10 at 100, total 1000.00; no goal.
\<close>

definition scenario_db :: db where
  "scenario_db =
     \<lparr>instruments =
        [\<lparr>i_id = 1, i_symbol = ''XYZ'', i_name = ''XYZ Corp'', i_type = ''STOCK'',
          i_current_price = 1000000\<rparr>],
      goals = [],
      trade_log =
        [\<lparr>t_id = 1, t_instrument_id = 1, t_goal_id = None, t_transaction_type = BUY,
          t_quantity = 100000, t_price = 1000000, t_total_amount = 100000\<rparr>],
      next_instrument_id = 2, next_goal_id = 1, next_trade_id = 2\<rparr>"

definition scenario :: "string option list \<Rightarrow> world" where
  "scenario fs = \<lparr>store = scenario_db, faults = fs, issued = []\<rparr>"

text \<open>
  The first instrument, goal and trade of the sample data of \<^verbatim>\<open>run_setup.sql\<close>.
\<close>

definition sample_db :: db where
  "sample_db =
     \<lparr>instruments =
        [\<lparr>i_id = 1, i_symbol = ''RELIANCE'', i_name = ''Reliance Industries Ltd'',
          i_type = ''STOCK'', i_current_price = 24505000\<rparr>],
      goals = [\<lparr>g_id = 1, g_name = ''Retirement Fund'', g_target_amount = 500000000\<rparr>],
      trade_log =
        [\<lparr>t_id = 1, t_instrument_id = 1, t_goal_id = Some 1, t_transaction_type = BUY,
          t_quantity = 100000, t_price = 24000000, t_total_amount = 2400000\<rparr>],
      next_instrument_id = 2, next_goal_id = 2, next_trade_id = 2\<rparr>"

definition sample :: "string option list \<Rightarrow> world" where
  "sample fs = \<lparr>store = sample_db, faults = fs, issued = []\<rparr>"

text \<open>The store before any row is inserted, and a body for the instrument of the scenario.\<close>

definition empty_db :: db where
  "empty_db =
     \<lparr>instruments = [], goals = [], trade_log = [],
      next_instrument_id = 1, next_goal_id = 1, next_trade_id = 1\<rparr>"

definition xyz :: "rat \<Rightarrow> jsval" where
  "xyz p =
     JObject
       [(''symbol'', JStr ''XYZ''), (''name'', JStr ''XYZ Corp''), (''type'', JStr ''STOCK''),
        (''current_price'', JNum p)]"

text \<open>What the claims on the trade log read of a world: its rows and the next id.\<close>

definition log_of :: "world \<Rightarrow> trade list \<times> int" where
  "log_of w = (trade_log (store w), next_trade_id (store w))"

text \<open>The world after the instrument of the scenario is created in the empty store.\<close>

definition listed :: world where
  "listed =
     \<lparr>store = scenario_db\<lparr>trade_log := [], next_trade_id := 1\<rparr>, faults = [],
      issued = [INSERT_instrument, SELECT_instrument_by_id]\<rparr>"

section \<open>Deleting an instrument\<close>

text \<open>
  C6. When at least one row of \<^verbatim>\<open>trade_log\<close> references the instrument and cascade is
  not requested (no \<^verbatim>\<open>cascade\<close> parameter, or one that is not the string \<^verbatim>\<open>'true'\<close>),
  the deletion leaves all three tables exactly as they were, whatever the store does; and
  once the count is answered, the response is 400 with the message of the conflict.
\<close>

theorem delete_instrument_conflict:
  assumes "filter (\<lambda>t. t_instrument_id t = ident) (trade_log (store w)) \<noteq> []"
    and "get_prop query ''cascade'' \<noteq> JStr ''true''"
  shows "store (snd (delete_instrument ident query w)) = store w \<and>
         (answered 1 (faults w) \<longrightarrow>
            fst (delete_instrument ident query w) = json 400 (error_body conflict_instrument))"
  using assms
  by (cases "faults w")
     (auto simp: delete_instrument_def db_query_def count_trade_log_by_instrument_def Let_def
           split: option.splits)

theorem delete_instrument_conflict_witness:
  "filter (\<lambda>t. t_instrument_id t = 1) (trade_log (store (scenario []))) \<noteq> [] \<and>
   get_prop [] ''cascade'' \<noteq> JStr ''true'' \<and>
   answered 1 (faults (scenario [])) \<and>
   store (snd (delete_instrument 1 [] (scenario []))) = store (scenario []) \<and>
   fst (delete_instrument 1 [] (scenario [])) = json 400 (error_body conflict_instrument)"
  using delete_instrument_conflict [of 1 "scenario []" "[]"]
  by (simp add: scenario_def scenario_db_def get_prop_def)

section \<open>Deleting a goal\<close>

text \<open>
  C7. When at least one row of \<^verbatim>\<open>trade_log\<close> references the goal, the deletion of
  the goal leaves all three tables as they were, whatever the query string holds and
  whatever the store does; once the count is answered, the response is 400 with the
  message of the conflict. The handler has no cascade branch.
\<close>

theorem delete_goal_conflict:
  assumes "filter (\<lambda>t. t_goal_id t = Some ident) (trade_log (store w)) \<noteq> []"
  shows "store (snd (delete_goal ident query w)) = store w \<and>
         (answered 1 (faults w) \<longrightarrow>
            fst (delete_goal ident query w) = json 400 (error_body conflict_goal))"
  using assms
  by (cases "faults w")
     (auto simp: delete_goal_def db_query_def count_trade_log_by_goal_def Let_def
           split: option.splits)

theorem delete_goal_conflict_witness:
  "filter (\<lambda>t. t_goal_id t = Some 1) (trade_log (store (sample []))) \<noteq> [] \<and>
   answered 1 (faults (sample [])) \<and>
   store (snd (delete_goal 1 [(''cascade'', JStr ''true'')] (sample []))) = store (sample []) \<and>
   fst (delete_goal 1 [(''cascade'', JStr ''true'')] (sample [])) =
     json 400 (error_body conflict_goal)"
  using delete_goal_conflict [of 1 "sample []" "[(''cascade'', JStr ''true'')]"]
  by (simp add: sample_def sample_db_def)

section \<open>The cascade\<close>

lemma filter_neq_then_eq: "filter (\<lambda>x. f x = k) (filter (\<lambda>x. f x \<noteq> k) xs) = []"
  by (induction xs) auto

lemma delete_instrument_without_cascade:
  "get_prop query ''cascade'' \<noteq> JStr ''true'' \<or>
   filter (\<lambda>t. t_instrument_id t = ident) (trade_log (store w)) = [] \<Longrightarrow>
   delete_instrument ident query w = delete_instrument ident [] w"
  by (cases "faults w")
     (auto simp: delete_instrument_def db_query_def Let_def get_prop_def
                 count_trade_log_by_instrument_def
           split: option.splits)

lemma delete_instrument_sends_cascade:
  "(DELETE_trade_log_by_instrument \<in>
      set (drop (length (issued w)) (issued (snd (delete_instrument ident query w))))) =
   (get_prop query ''cascade'' = JStr ''true'' \<and>
    filter (\<lambda>t. t_instrument_id t = ident) (trade_log (store w)) \<noteq> [] \<and>
    answered 1 (faults w))"
  by (cases "faults w"; cases "tl (faults w)"; cases "tl (tl (faults w))")
     (auto simp: delete_instrument_def db_query_def Let_def
                 count_trade_log_by_instrument_def delete_trade_log_by_instrument_def
                 delete_instrument_row_def
           split: option.splits)

lemma delete_instrument_refused:
  assumes "filter (\<lambda>t. t_instrument_id t = ident) (trade_log (store w)) \<noteq> []"
    and "get_prop query ''cascade'' \<noteq> JStr ''true''"
    and "answered 1 (faults w)"
  shows "fst (delete_instrument ident query w) = json 400 (error_body conflict_instrument)"
    and "store (snd (delete_instrument ident query w)) = store w"
    and "issued (snd (delete_instrument ident query w)) =
           issued w @ [COUNT_trade_log_by_instrument]"
  using assms
  by (cases "faults w";
      auto simp: delete_instrument_def db_query_def Let_def count_trade_log_by_instrument_def
           split: option.splits)+

lemma delete_instrument_cascaded:
  assumes "filter (\<lambda>t. t_instrument_id t = ident) (trade_log (store w)) \<noteq> []"
    and "get_prop query ''cascade'' = JStr ''true''"
    and "answered 3 (faults w)"
  shows "fst (delete_instrument ident query w) =
           (if filter (\<lambda>i. i_id i = ident) (instruments (store w)) = []
            then json 404 (error_body ''Instrument not found'')
            else json 200 (message_body ''Instrument and associated trade logs deleted''))"
    and "store (snd (delete_instrument ident query w)) =
           (store w)\<lparr>instruments := filter (\<lambda>i. i_id i \<noteq> ident) (instruments (store w)),
                      trade_log := filter (\<lambda>t. t_instrument_id t \<noteq> ident)
                                     (trade_log (store w))\<rparr>"
    and "issued (snd (delete_instrument ident query w)) =
           issued w @ [COUNT_trade_log_by_instrument, DELETE_trade_log_by_instrument,
                       DELETE_instrument]"
  using assms
  by (cases "faults w"; cases "tl (faults w)"; cases "tl (tl (faults w))";
      auto simp: delete_instrument_def db_query_def Let_def json_def eval_nat_numeral
                 count_trade_log_by_instrument_def filter_neq_then_eq
                 delete_trade_log_by_instrument_def delete_instrument_row_def
           split: option.splits)+

text \<open>
  C10, as the code has it. The comparison is \<^verbatim>\<open>cascade === 'true'\<close>, inside the
  branch of a positive count. For every delete request: the handler sends
  \<^verbatim>\<open>DELETE FROM trade_log\<close> exactly when the parameter is the string \<^verbatim>\<open>'true'\<close>, at
  least one row references the instrument and the count is answered. With any other
  value, or with no referencing row, the run is the run without the parameter. With a
  referencing row and another value, once the count is answered, the response is 400 with
  the message of the conflict, the store is as it was and only the count was sent. With a
  referencing row and \<^verbatim>\<open>'true'\<close>, once the three statements are answered, the rows and
  the instrument are gone and the response is 200 (404 if no such instrument was there).
\<close>

theorem cascade_only_true:
  "(get_prop query ''cascade'' \<noteq> JStr ''true'' \<or>
    filter (\<lambda>t. t_instrument_id t = ident) (trade_log (store w)) = [] \<longrightarrow>
      delete_instrument ident query w = delete_instrument ident [] w) \<and>
   (DELETE_trade_log_by_instrument \<in>
      set (drop (length (issued w)) (issued (snd (delete_instrument ident query w))))) =
     (get_prop query ''cascade'' = JStr ''true'' \<and>
      filter (\<lambda>t. t_instrument_id t = ident) (trade_log (store w)) \<noteq> [] \<and>
      answered 1 (faults w)) \<and>
   (filter (\<lambda>t. t_instrument_id t = ident) (trade_log (store w)) \<noteq> [] \<and>
    get_prop query ''cascade'' \<noteq> JStr ''true'' \<and> answered 1 (faults w) \<longrightarrow>
      fst (delete_instrument ident query w) = json 400 (error_body conflict_instrument) \<and>
      store (snd (delete_instrument ident query w)) = store w \<and>
      issued (snd (delete_instrument ident query w)) =
        issued w @ [COUNT_trade_log_by_instrument]) \<and>
   (filter (\<lambda>t. t_instrument_id t = ident) (trade_log (store w)) \<noteq> [] \<and>
    get_prop query ''cascade'' = JStr ''true'' \<and> answered 3 (faults w) \<longrightarrow>
      fst (delete_instrument ident query w) =
        (if filter (\<lambda>i. i_id i = ident) (instruments (store w)) = []
         then json 404 (error_body ''Instrument not found'')
         else json 200 (message_body ''Instrument and associated trade logs deleted'')) \<and>
      store (snd (delete_instrument ident query w)) =
        (store w)\<lparr>instruments := filter (\<lambda>i. i_id i \<noteq> ident) (instruments (store w)),
                   trade_log := filter (\<lambda>t. t_instrument_id t \<noteq> ident)
                                  (trade_log (store w))\<rparr> \<and>
      issued (snd (delete_instrument ident query w)) =
        issued w @ [COUNT_trade_log_by_instrument, DELETE_trade_log_by_instrument,
                    DELETE_instrument])"
  using delete_instrument_without_cascade [of query ident w]
        delete_instrument_sends_cascade [of w ident query]
        delete_instrument_refused [where ident = ident and w = w and query = query]
        delete_instrument_cascaded [where ident = ident and w = w and query = query]
  by blast

theorem cascade_only_true_witness:
  "filter (\<lambda>t. t_instrument_id t = 1) (trade_log (store (scenario []))) \<noteq> [] \<and>
   answered 3 (faults (scenario [])) \<and>
   delete_instrument 1 [(''cascade'', JStr ''True'')] (scenario []) =
     delete_instrument 1 [] (scenario []) \<and>
   fst (delete_instrument 1 [(''cascade'', JStr ''True'')] (scenario [])) =
     json 400 (error_body conflict_instrument) \<and>
   fst (delete_instrument 1 [(''cascade'', JStr ''1'')] (scenario [])) =
     json 400 (error_body conflict_instrument) \<and>
   fst (delete_instrument 1 [(''cascade'', JBool True)] (scenario [])) =
     json 400 (error_body conflict_instrument) \<and>
   store (snd (delete_instrument 1 [(''cascade'', JBool True)] (scenario []))) = scenario_db \<and>
   fst (delete_instrument 1 [(''cascade'', JStr ''true'')] (scenario [])) =
     json 200 (message_body ''Instrument and associated trade logs deleted'') \<and>
   store (snd (delete_instrument 1 [(''cascade'', JStr ''true'')] (scenario []))) =
     scenario_db\<lparr>instruments := [], trade_log := []\<rparr> \<and>
   issued (snd (delete_instrument 1 [(''cascade'', JStr ''true'')] (scenario []))) =
     [COUNT_trade_log_by_instrument, DELETE_trade_log_by_instrument, DELETE_instrument]"
  using cascade_only_true [of "[(''cascade'', JStr ''True'')]" 1 "scenario []"]
        cascade_only_true [of "[(''cascade'', JStr ''1'')]" 1 "scenario []"]
        cascade_only_true [of "[(''cascade'', JBool True)]" 1 "scenario []"]
        cascade_only_true [of "[(''cascade'', JStr ''true'')]" 1 "scenario []"]
  by (simp add: scenario_def scenario_db_def get_prop_def eval_nat_numeral Let_def
                delete_instrument_def db_query_def count_trade_log_by_instrument_def
                delete_trade_log_by_instrument_def delete_instrument_row_def)

text \<open>
  C10 as stated fails: with \<^verbatim>\<open>cascade=true\<close> and no row of \<^verbatim>\<open>trade_log\<close> for
  instrument 1, the cascade branch is not taken: the statements sent are the count and
  the deletion of the instrument, and the answer is that of a plain deletion.
\<close>

theorem cascade_true_without_rows:
  "get_prop [(''cascade'', JStr ''true'')] ''cascade'' = JStr ''true'' \<and>
   DELETE_trade_log_by_instrument \<notin>
     set (drop (length (issued listed))
            (issued (snd (delete_instrument 1 [(''cascade'', JStr ''true'')] listed)))) \<and>
   issued (snd (delete_instrument 1 [(''cascade'', JStr ''true'')] listed)) =
     issued listed @ [COUNT_trade_log_by_instrument, DELETE_instrument] \<and>
   fst (delete_instrument 1 [(''cascade'', JStr ''true'')] listed) =
     json 200 (message_body ''Instrument deleted'') \<and>
   delete_instrument 1 [(''cascade'', JStr ''true'')] listed = delete_instrument 1 [] listed"
  by (simp add: listed_def scenario_db_def get_prop_def Let_def delete_instrument_def
                db_query_def count_trade_log_by_instrument_def delete_instrument_row_def)

text \<open>
  C1, as the code has it. With at least one referencing row and \<^verbatim>\<open>cascade=true\<close>, the
  two deletions are two statements, each committed on its own. When the three statements
  are answered, the referencing rows and the instrument are gone. When the count or the
  first deletion is rejected, nothing has changed. When only the second deletion is
  rejected, the rows of \<^verbatim>\<open>trade_log\<close> stay deleted and \<^verbatim>\<open>instruments\<close> is as it
  was; the response is 500.
\<close>

theorem delete_instrument_cascade:
  assumes "filter (\<lambda>t. t_instrument_id t = ident) (trade_log (store w)) \<noteq> []"
    and "get_prop query ''cascade'' = JStr ''true''"
  shows "(let r = delete_instrument ident query w;
              gone = filter (\<lambda>t. t_instrument_id t \<noteq> ident) (trade_log (store w)) in
          (answered 3 (faults w) \<longrightarrow>
             store (snd r) =
               (store w)\<lparr>instruments := filter (\<lambda>i. i_id i \<noteq> ident) (instruments (store w)),
                          trade_log := gone\<rparr> \<and>
             fst r =
               (if filter (\<lambda>i. i_id i = ident) (instruments (store w)) = []
                then json 404 (error_body ''Instrument not found'')
                else json 200 (message_body ''Instrument and associated trade logs deleted''))) \<and>
          (\<not> answered 2 (faults w) \<longrightarrow> store (snd r) = store w \<and> status (fst r) = 500) \<and>
          (answered 2 (faults w) \<and> \<not> answered 3 (faults w) \<longrightarrow>
             store (snd r) = (store w)\<lparr>trade_log := gone\<rparr> \<and> status (fst r) = 500))"
  using assms
  by (cases "faults w"; cases "tl (faults w)"; cases "tl (tl (faults w))")
     (auto simp: delete_instrument_def db_query_def Let_def json_def eval_nat_numeral
                 count_trade_log_by_instrument_def filter_neq_then_eq
                 delete_trade_log_by_instrument_def delete_instrument_row_def
           split: option.splits)

theorem delete_instrument_cascade_witness:
  "filter (\<lambda>t. t_instrument_id t = 1) (trade_log (store (scenario []))) \<noteq> [] \<and>
   get_prop [(''cascade'', JStr ''true'')] ''cascade'' = JStr ''true'' \<and>
   answered 3 (faults (scenario [])) \<and>
   instruments (store (snd (delete_instrument 1 [(''cascade'', JStr ''true'')] (scenario [])))) = [] \<and>
   trade_log (store (snd (delete_instrument 1 [(''cascade'', JStr ''true'')] (scenario [])))) = [] \<and>
   status (fst (delete_instrument 1 [(''cascade'', JStr ''true'')] (scenario []))) = 200 \<and>
   \<not> answered 2 (faults (scenario [None, Some ''ER_LOCK_DEADLOCK''])) \<and>
   store (snd (delete_instrument 1 [(''cascade'', JStr ''true'')]
                 (scenario [None, Some ''ER_LOCK_DEADLOCK'']))) = scenario_db \<and>
   status (fst (delete_instrument 1 [(''cascade'', JStr ''true'')]
                  (scenario [None, Some ''ER_LOCK_DEADLOCK'']))) = 500 \<and>
   answered 2 (faults (scenario [None, None, Some ''ER_LOCK_DEADLOCK''])) \<and>
   \<not> answered 3 (faults (scenario [None, None, Some ''ER_LOCK_DEADLOCK''])) \<and>
   store (snd (delete_instrument 1 [(''cascade'', JStr ''true'')]
                 (scenario [None, None, Some ''ER_LOCK_DEADLOCK'']))) =
     scenario_db\<lparr>trade_log := []\<rparr>"
  using delete_instrument_cascade [of 1 "scenario []" "[(''cascade'', JStr ''true'')]"]
        delete_instrument_cascade
          [of 1 "scenario [None, Some ''ER_LOCK_DEADLOCK'']" "[(''cascade'', JStr ''true'')]"]
        delete_instrument_cascade
          [of 1 "scenario [None, None, Some ''ER_LOCK_DEADLOCK'']" "[(''cascade'', JStr ''true'')]"]
  by (simp add: scenario_def scenario_db_def get_prop_def Let_def json_def eval_nat_numeral)

text \<open>
  C1 as stated fails: in the scenario, when the server answers the count and the first
  deletion and rejects the second, the purchase is gone from \<^verbatim>\<open>trade_log\<close> and
  instrument 1 is still there.
\<close>

theorem cascade_not_atomic:
  "trade_log (store (scenario [None, None, Some ''ECONNRESET''])) \<noteq> [] \<and>
   trade_log (store (snd (delete_instrument 1 [(''cascade'', JStr ''true'')]
                            (scenario [None, None, Some ''ECONNRESET''])))) = [] \<and>
   instruments (store (snd (delete_instrument 1 [(''cascade'', JStr ''true'')]
                              (scenario [None, None, Some ''ECONNRESET''])))) =
     instruments (store (scenario [None, None, Some ''ECONNRESET''])) \<and>
   instruments (store (scenario [None, None, Some ''ECONNRESET''])) \<noteq> [] \<and>
   fst (delete_instrument 1 [(''cascade'', JStr ''true'')]
          (scenario [None, None, Some ''ECONNRESET''])) = json 500 (error_body ''ECONNRESET'')"
  by (simp add: scenario_def scenario_db_def get_prop_def Let_def delete_instrument_def
                db_query_def count_trade_log_by_instrument_def
                delete_trade_log_by_instrument_def delete_instrument_row_def)

section \<open>Validation of an instrument\<close>

lemma round_half_away_of_int: "round_half_away (of_int n) = n"
proof -
  have "\<lfloor>rat_of_int n + 1 / 2\<rfloor> = n" by (simp add: floor_eq_iff)
  moreover have "\<lfloor>- rat_of_int n + 1 / 2\<rfloor> = - n" by (simp add: floor_eq_iff)
  ultimately show ?thesis by (simp add: round_half_away_def)
qed

lemma to_decimal_of_int: "to_decimal s (of_int k) = k * 10 ^ s"
proof -
  have "(of_int k :: rat) * 10 ^ s = of_int (k * 10 ^ s)" by simp
  then show ?thesis
    unfolding to_decimal_def by (simp only: round_half_away_of_int)
qed

lemma status_json: "status (json st v) = st"
  by (simp add: json_def)

lemma post_instruments_invalid:
  assumes "\<not> nullish b"
    and "\<not> truthy (property b ''symbol'') \<or> \<not> truthy (property b ''name'') \<or>
         \<not> truthy (property b ''type'') \<or> \<not> truthy (property b ''current_price'') \<or>
         property b ''type'' \<notin> set [JStr ''STOCK'', JStr ''MF'', JStr ''GOLD'']"
  shows "status (fst (post_instruments b w)) = 400 \<and> snd (post_instruments b w) = w"
  using assms unfolding post_instruments_def by (simp add: status_json Let_def)

lemma issued_db_query:
  "db_query st act w = (r, w') \<Longrightarrow> issued w' = issued w @ [st]"
  by (cases "faults w") (auto simp: db_query_def Let_def split: option.splits prod.splits)

lemma post_instruments_valid:
  assumes "\<not> (\<not> truthy (property b ''symbol'') \<or> \<not> truthy (property b ''name'') \<or>
         \<not> truthy (property b ''type'') \<or> \<not> truthy (property b ''current_price'') \<or>
         property b ''type'' \<notin> set [JStr ''STOCK'', JStr ''MF'', JStr ''GOLD''])"
  shows "status (fst (post_instruments b w)) \<noteq> 400"
    and "\<not> nullish b \<Longrightarrow>
         take (Suc (length (issued w))) (issued (snd (post_instruments b w))) =
           issued w @ [INSERT_instrument]"
proof -
  show "status (fst (post_instruments b w)) \<noteq> 400"
    using assms unfolding post_instruments_def
    by (simp add: status_json uncaught_def Let_def split: prod.splits sum.splits list.splits)
  show "take (Suc (length (issued w))) (issued (snd (post_instruments b w))) =
           issued w @ [INSERT_instrument]" if "\<not> nullish b"
    using assms that unfolding post_instruments_def
    by (auto simp: Let_def split: prod.splits sum.splits list.splits dest!: issued_db_query)
qed

lemma put_instrument_invalid:
  assumes "\<not> nullish b"
    and "\<not> truthy (property b ''symbol'') \<or> \<not> truthy (property b ''name'') \<or>
         \<not> truthy (property b ''type'') \<or> \<not> truthy (property b ''current_price'') \<or>
         property b ''type'' \<notin> set [JStr ''STOCK'', JStr ''MF'', JStr ''GOLD'']"
  shows "status (fst (put_instrument ident b w)) = 400 \<and> snd (put_instrument ident b w) = w"
  using assms unfolding put_instrument_def by (simp add: status_json Let_def)

lemma put_instrument_valid:
  assumes "\<not> (\<not> truthy (property b ''symbol'') \<or> \<not> truthy (property b ''name'') \<or>
         \<not> truthy (property b ''type'') \<or> \<not> truthy (property b ''current_price'') \<or>
         property b ''type'' \<notin> set [JStr ''STOCK'', JStr ''MF'', JStr ''GOLD''])"
  shows "status (fst (put_instrument ident b w)) \<noteq> 400"
    and "\<not> nullish b \<Longrightarrow>
         take (Suc (length (issued w))) (issued (snd (put_instrument ident b w))) =
           issued w @ [UPDATE_instrument]"
proof -
  show "status (fst (put_instrument ident b w)) \<noteq> 400"
    using assms unfolding put_instrument_def
    by (simp add: status_json uncaught_def Let_def split: prod.splits sum.splits list.splits)
  show "take (Suc (length (issued w))) (issued (snd (put_instrument ident b w))) =
           issued w @ [UPDATE_instrument]" if "\<not> nullish b"
    using assms that unfolding put_instrument_def
    by (auto simp: Let_def split: prod.splits sum.splits list.splits dest!: issued_db_query)
qed

lemma instrument_body_missing:
  "nullish b \<Longrightarrow> post_instruments b w = (uncaught, w) \<and> put_instrument ident b w = (uncaught, w)"
  by (simp add: post_instruments_def put_instrument_def)

text \<open>
  C2, as the code has it. For any value of \<^verbatim>\<open>req.body\<close>, creating and updating an
  instrument answer 400 exactly when the body is there (not \<^verbatim>\<open>undefined\<close>, not
  \<^verbatim>\<open>null\<close>) and symbol, name, type or price is falsy (absent, \<^verbatim>\<open>null\<close>,
  \<^verbatim>\<open>false\<close>, 0, \<^verbatim>\<open>NaN\<close> or the empty string) or the type is not one of the three
  strings; then no statement is sent and the world is as it was. Without a body the
  handler throws before it checks anything, and sends no statement either. Every other
  body passes validation, a negative price included: the first thing the handler does is
  to send the insertion, or the update.
\<close>

theorem instrument_validation:
  "(status (fst (post_instruments b w)) = 400) =
     (\<not> nullish b \<and>
      (\<not> truthy (property b ''symbol'') \<or> \<not> truthy (property b ''name'') \<or>
       \<not> truthy (property b ''type'') \<or> \<not> truthy (property b ''current_price'') \<or>
       property b ''type'' \<notin> set [JStr ''STOCK'', JStr ''MF'', JStr ''GOLD''])) \<and>
   (status (fst (put_instrument ident b w)) = 400) =
     (\<not> nullish b \<and>
      (\<not> truthy (property b ''symbol'') \<or> \<not> truthy (property b ''name'') \<or>
       \<not> truthy (property b ''type'') \<or> \<not> truthy (property b ''current_price'') \<or>
       property b ''type'' \<notin> set [JStr ''STOCK'', JStr ''MF'', JStr ''GOLD''])) \<and>
   (status (fst (post_instruments b w)) = 400 \<longrightarrow> snd (post_instruments b w) = w) \<and>
   (status (fst (put_instrument ident b w)) = 400 \<longrightarrow> snd (put_instrument ident b w) = w) \<and>
   (nullish b \<longrightarrow>
      post_instruments b w = (uncaught, w) \<and> put_instrument ident b w = (uncaught, w)) \<and>
   (\<not> nullish b \<and> status (fst (post_instruments b w)) \<noteq> 400 \<longrightarrow>
      take (Suc (length (issued w))) (issued (snd (post_instruments b w))) =
        issued w @ [INSERT_instrument]) \<and>
   (\<not> nullish b \<and> status (fst (put_instrument ident b w)) \<noteq> 400 \<longrightarrow>
      take (Suc (length (issued w))) (issued (snd (put_instrument ident b w))) =
        issued w @ [UPDATE_instrument])"
proof -
  have u: "status uncaught \<noteq> 400" by (simp add: uncaught_def)
  show ?thesis
    using post_instruments_invalid [where b = b and w = w]
          post_instruments_valid [where b = b and w = w]
          put_instrument_invalid [where b = b and w = w and ident = ident]
          put_instrument_valid [where b = b and w = w and ident = ident]
          instrument_body_missing [where b = b and w = w and ident = ident] u
    by (cases "nullish b") (simp, blast)
qed

theorem instrument_validation_witness:
  "status (fst (post_instruments (xyz 0) (scenario []))) = 400 \<and>
   snd (post_instruments (xyz 0) (scenario [])) = scenario [] \<and>
   status (fst (put_instrument 1 (xyz 0) (scenario []))) = 400 \<and>
   snd (put_instrument 1 (xyz 0) (scenario [])) = scenario [] \<and>
   status (fst (post_instruments
                  (JObject [(''symbol'', JBool False), (''name'', JStr ''XYZ Corp''),
                            (''type'', JStr ''STOCK''), (''current_price'', JNum 100)])
                  (scenario []))) = 400 \<and>
   status (fst (post_instruments (JArray []) (scenario []))) = 400 \<and>
   nullish JUndefined \<and>
   post_instruments JUndefined (scenario []) = (uncaught, scenario []) \<and>
   \<not> nullish (xyz (- 5)) \<and>
   status (fst (put_instrument 1 (xyz (- 5)) (scenario []))) \<noteq> 400 \<and>
   take (Suc (length (issued (scenario []))))
     (issued (snd (put_instrument 1 (xyz (- 5)) (scenario [])))) =
     issued (scenario []) @ [UPDATE_instrument]"
  using instrument_validation [of "xyz 0" "scenario []" 1]
        instrument_validation
          [of "JObject [(''symbol'', JBool False), (''name'', JStr ''XYZ Corp''),
                        (''type'', JStr ''STOCK''), (''current_price'', JNum 100)]"
              "scenario []" 1]
        instrument_validation [of "JArray []" "scenario []" 1]
        instrument_validation [of JUndefined "scenario []" 1]
        instrument_validation [of "xyz (- 5)" "scenario []" 1]
  by (simp add: xyz_def nullish_def property_def get_prop_def)

text \<open>
  C2 as stated fails: the price \<open>-5\<close> is not positive, and both handlers store it, with
  status 201 and 200.
\<close>

theorem negative_price_accepted:
  "\<not> 0 < (- 5 :: rat) \<and>
   status (fst (post_instruments (xyz (- 5)) \<lparr>store = empty_db, faults = [], issued = []\<rparr>)) = 201 \<and>
   instruments (store (snd (post_instruments (xyz (- 5))
                               \<lparr>store = empty_db, faults = [], issued = []\<rparr>))) =
     [\<lparr>i_id = 1, i_symbol = ''XYZ'', i_name = ''XYZ Corp'', i_type = ''STOCK'',
       i_current_price = - 50000\<rparr>] \<and>
   status (fst (put_instrument 1 (xyz (- 5)) (scenario []))) = 200 \<and>
   instruments (store (snd (put_instrument 1 (xyz (- 5)) (scenario [])))) =
     [\<lparr>i_id = 1, i_symbol = ''XYZ'', i_name = ''XYZ Corp'', i_type = ''STOCK'',
       i_current_price = - 50000\<rparr>]"
  using to_decimal_of_int [of 4 "- 5"]
  by (simp add: post_instruments_def put_instrument_def xyz_def empty_db_def scenario_def
                scenario_db_def db_query_def insert_instrument_def update_instrument_def
                nullish_def property_def get_prop_def sql_text_def sql_number_def Let_def
                select_instrument_by_id_def status_json instrument_row_def)

section \<open>The goal of a trade\<close>

lemma trade_unknown_goal:
  assumes "truthy_int (goal_id b)"
    and "filter (\<lambda>g. Val (g_id g) = goal_id b) (goals (store w)) = []"
  shows "store (snd (trade mul kind ident b w)) = store w"
    and "quantity b = Val q \<Longrightarrow> 0 < q \<Longrightarrow> price b = Val p \<Longrightarrow> 0 < p \<Longrightarrow>
         filter (\<lambda>i. i_id i = ident) (instruments (store w)) \<noteq> [] \<Longrightarrow>
         answered 2 (faults w) \<Longrightarrow>
         fst (trade mul kind ident b w) = json 400 (error_body ''Goal not found'')"
proof -
  obtain g where g: "goal_id b = Val g"
    using assms(1) by (cases "goal_id b") auto
  have none: "filter (\<lambda>x. g_id x = g) (goals (store w)) = []"
    using assms(2) by (simp add: g)
  show "store (snd (trade mul kind ident b w)) = store w"
    using assms(1)
    by (cases "faults w"; cases "tl (faults w)")
       (auto simp: trade_def db_query_def Let_def g none select_goal_id_def
                   select_instrument_id_symbol_name_def
             split: option.splits)
  show "fst (trade mul kind ident b w) = json 400 (error_body ''Goal not found'')"
    if "quantity b = Val q" "0 < q" "price b = Val p" "0 < p"
       "filter (\<lambda>i. i_id i = ident) (instruments (store w)) \<noteq> []" "answered 2 (faults w)"
    using that assms(1)
    by (cases "faults w"; cases "tl (faults w)")
       (auto simp: trade_def db_query_def Let_def g none select_goal_id_def le_zero_def
                   select_instrument_id_symbol_name_def eval_nat_numeral
             split: option.splits)
qed

text \<open>
  C4, as the code has it. \<^verbatim>\<open>if (goal_id)\<close> tests truthiness. When the goal id of a
  buy or sell request is truthy (not absent, not \<^verbatim>\<open>null\<close>, not 0) and no goal has it,
  the tables are left as they were, whatever else holds; and when quantity and price are
  positive, the instrument exists and the two lookups are answered, the response is 400
  with the message \<^verbatim>\<open>Goal not found\<close>.
\<close>

theorem unknown_goal_rejected:
  assumes "truthy_int (goal_id b)"
    and "filter (\<lambda>g. Val (g_id g) = goal_id b) (goals (store w)) = []"
  shows "store (snd (post_buy mul ident b w)) = store w \<and>
         store (snd (post_sell mul ident b w)) = store w \<and>
         (quantity b = Val q \<and> 0 < q \<and> price b = Val p \<and> 0 < p \<and>
          filter (\<lambda>i. i_id i = ident) (instruments (store w)) \<noteq> [] \<and>
          answered 2 (faults w) \<longrightarrow>
            fst (post_buy mul ident b w) = json 400 (error_body ''Goal not found'') \<and>
            fst (post_sell mul ident b w) = json 400 (error_body ''Goal not found''))"
  using trade_unknown_goal(1) [OF assms] trade_unknown_goal(2) [OF assms]
  by (simp add: post_buy_def post_sell_def)

theorem unknown_goal_rejected_witness:
  "truthy_int (Val 7) \<and>
   filter (\<lambda>g. Val (g_id g) = Val 7) (goals (store (sample []))) = [] \<and>
   filter (\<lambda>i. i_id i = 1) (instruments (store (sample []))) \<noteq> [] \<and>
   answered 2 (faults (sample [])) \<and>
   store (snd (post_buy (*) 1 \<lparr>quantity = Val 10, price = Val 2400, goal_id = Val 7\<rparr> (sample []))) =
     store (sample []) \<and>
   fst (post_buy (*) 1 \<lparr>quantity = Val 10, price = Val 2400, goal_id = Val 7\<rparr> (sample [])) =
     json 400 (error_body ''Goal not found'') \<and>
   fst (post_sell (*) 1 \<lparr>quantity = Val 10, price = Val 2400, goal_id = Val 7\<rparr> (sample [])) =
     json 400 (error_body ''Goal not found'')"
  using unknown_goal_rejected
          [of "\<lparr>quantity = Val 10, price = Val 2400, goal_id = Val 7\<rparr>" "sample []" "(*)" 1 10 2400]
  by (simp add: sample_def sample_db_def eval_nat_numeral)

text \<open>
  C4 as stated fails: the goal id 0 is not \<^verbatim>\<open>null\<close> and no goal of the scenario has
  it, yet the purchase is answered with 201 and a row is added to \<^verbatim>\<open>trade_log\<close>.
\<close>

theorem goal_id_zero_not_rejected:
  "goal_id \<lparr>quantity = Val 10, price = Val 100, goal_id = Val 0\<rparr> \<noteq> Null \<and>
   goal_id \<lparr>quantity = Val 10, price = Val 100, goal_id = Val 0\<rparr> \<noteq> Undefined \<and>
   filter (\<lambda>g. Val (g_id g) = goal_id \<lparr>quantity = Val 10, price = Val 100, goal_id = Val 0\<rparr>)
     (goals (store (scenario []))) = [] \<and>
   status (fst (post_buy (*) 1 \<lparr>quantity = Val 10, price = Val 100, goal_id = Val 0\<rparr>
                  (scenario []))) = 201 \<and>
   trade_log (store (snd (post_buy (*) 1 \<lparr>quantity = Val 10, price = Val 100, goal_id = Val 0\<rparr>
                            (scenario [])))) =
     trade_log (store (scenario [])) @
       [\<lparr>t_id = 2, t_instrument_id = 1, t_goal_id = None, t_transaction_type = BUY,
         t_quantity = 100000, t_price = 1000000, t_total_amount = 100000\<rparr>]"
  using to_decimal_of_int [of 4 10] to_decimal_of_int [of 4 100] to_decimal_of_int [of 2 1000]
  by (simp add: post_buy_def trade_def record_trade_def scenario_def scenario_db_def
                db_query_def le_zero_def js_times_def or_null_def status_json
                select_instrument_id_symbol_name_def insert_trade_log_def
                select_trade_log_joined_by_id_def joined_def left_side_def)

section \<open>Handlers that leave the trade log alone\<close>

lemma log_of_get_instruments: "log_of (snd (get_instruments w)) = log_of w"
  by (cases "faults w")
     (auto simp: log_of_def get_instruments_def db_query_def Let_def select_instruments_def
           split: option.splits)

lemma log_of_get_instrument: "log_of (snd (get_instrument ident w)) = log_of w"
  by (cases "faults w")
     (auto simp: log_of_def get_instrument_def db_query_def Let_def select_instrument_by_id_def
           split: option.splits list.splits)

lemma log_of_post_instruments: "log_of (snd (post_instruments b w)) = log_of w"
  by (cases "faults w"; cases "tl (faults w)")
     (auto simp: log_of_def post_instruments_def db_query_def Let_def select_instrument_by_id_def
                 insert_instrument_def
           split: option.splits list.splits)

lemma log_of_put_instrument: "log_of (snd (put_instrument ident b w)) = log_of w"
  by (cases "faults w"; cases "tl (faults w)")
     (auto simp: log_of_def put_instrument_def db_query_def Let_def select_instrument_by_id_def
                 update_instrument_def
           split: option.splits list.splits)

lemma log_of_get_goals: "log_of (snd (get_goals w)) = log_of w"
  by (cases "faults w")
     (auto simp: log_of_def get_goals_def db_query_def Let_def select_goals_def
           split: option.splits)

lemma log_of_get_goal: "log_of (snd (get_goal ident w)) = log_of w"
  by (cases "faults w")
     (auto simp: log_of_def get_goal_def db_query_def Let_def select_goal_by_id_def
           split: option.splits list.splits)

lemma log_of_post_goals: "log_of (snd (post_goals b w)) = log_of w"
  by (cases "faults w"; cases "tl (faults w)")
     (auto simp: log_of_def post_goals_def db_query_def Let_def select_goal_by_id_def
                 insert_goal_def
           split: option.splits list.splits field.splits)

lemma log_of_put_goal: "log_of (snd (put_goal ident b w)) = log_of w"
  by (cases "faults w"; cases "tl (faults w)")
     (auto simp: log_of_def put_goal_def db_query_def Let_def select_goal_by_id_def
                 update_goal_def
           split: option.splits list.splits field.splits)

lemma log_of_delete_goal: "log_of (snd (delete_goal ident query w)) = log_of w"
  by (cases "faults w"; cases "tl (faults w)")
     (auto simp: log_of_def delete_goal_def db_query_def Let_def count_trade_log_by_goal_def
                 delete_goal_row_def
           split: option.splits)

lemma log_of_get_trade_log: "log_of (snd (get_trade_log w)) = log_of w"
  by (cases "faults w")
     (auto simp: log_of_def get_trade_log_def db_query_def Let_def select_trade_log_joined_def
           split: option.splits)

section \<open>Handlers that write the trade log\<close>

lemma log_of_delete_instrument:
  "log_of (snd (delete_instrument ident query w)) = log_of w \<or>
   get_prop query ''cascade'' = JStr ''true'' \<and>
   log_of (snd (delete_instrument ident query w)) =
     (filter (\<lambda>t. t_instrument_id t \<noteq> ident) (trade_log (store w)), next_trade_id (store w))"
  by (cases "faults w"; cases "tl (faults w)"; cases "tl (tl (faults w))")
     (auto simp: log_of_def delete_instrument_def db_query_def Let_def
                 count_trade_log_by_instrument_def delete_trade_log_by_instrument_def
                 delete_instrument_row_def
           split: option.splits)

lemma log_of_record_trade:
  "log_of (snd (record_trade mul kind ident b w)) = log_of w \<or>
   (\<exists>row. t_id row = next_trade_id (store w) \<and>
      log_of (snd (record_trade mul kind ident b w)) =
        (trade_log (store w) @ [row], next_trade_id (store w) + 1))"
  by (cases "faults w"; cases "tl (faults w)")
     (auto simp: log_of_def record_trade_def db_query_def Let_def insert_trade_log_def
                 select_trade_log_joined_by_id_def
           split: option.splits field.splits)

lemma log_of_trade:
  "log_of (snd (trade mul kind ident b w)) = log_of w \<or>
   (\<exists>row. t_id row = next_trade_id (store w) \<and>
      log_of (snd (trade mul kind ident b w)) =
        (trade_log (store w) @ [row], next_trade_id (store w) + 1))"
proof -
  have keep: "log_of (w\<lparr>faults := fs, issued := sent\<rparr>) = log_of w" for fs sent
    by (simp add: log_of_def)
  have rt: "log_of (snd (record_trade mul kind ident b (w\<lparr>faults := fs, issued := sent\<rparr>))) =
              log_of w \<or>
            (\<exists>row. t_id row = next_trade_id (store w) \<and>
               log_of (snd (record_trade mul kind ident b (w\<lparr>faults := fs, issued := sent\<rparr>))) =
                 (trade_log (store w) @ [row], next_trade_id (store w) + 1))" for fs sent
    using log_of_record_trade [of mul kind ident b "w\<lparr>faults := fs, issued := sent\<rparr>"]
    by (simp add: log_of_def)
  show ?thesis
    by (cases "faults w"; cases "tl (faults w)")
       (simp_all add: trade_def db_query_def Let_def select_instrument_id_symbol_name_def
                  select_goal_id_def keep rt
             split: option.splits field.splits)
qed

section \<open>The trade log is append-only\<close>

lemma log_of_handle:
  "log_of (snd (handle mul op w)) = log_of w \<or>
   (\<exists>ident b row.
      (op = Buy ident b \<or> op = Sell ident b) \<and> t_id row = next_trade_id (store w) \<and>
      log_of (snd (handle mul op w)) =
        (trade_log (store w) @ [row], next_trade_id (store w) + 1)) \<or>
   (\<exists>ident query.
      op = DeleteInstrument ident query \<and> get_prop query ''cascade'' = JStr ''true'' \<and>
      log_of (snd (handle mul op w)) =
        (filter (\<lambda>t. t_instrument_id t \<noteq> ident) (trade_log (store w)),
         next_trade_id (store w)))"
proof (cases op)
  case (DeleteInstrument ident query)
  then show ?thesis
    using log_of_delete_instrument [of ident query w] by auto
next
  case (Buy ident b)
  then show ?thesis
    using log_of_trade [of mul BUY ident b w] by (auto simp: post_buy_def)
next
  case (Sell ident b)
  then show ?thesis
    using log_of_trade [of mul SELL ident b w] by (auto simp: post_sell_def)
qed (simp_all add: log_of_get_instruments log_of_get_instrument log_of_post_instruments
       log_of_put_instrument log_of_get_goals log_of_get_goal log_of_post_goals
       log_of_put_goal log_of_delete_goal log_of_get_trade_log)

text \<open>
  C8. Take a store whose trade ids are distinct and below the next id, as the
  \<^verbatim>\<open>AUTO_INCREMENT\<close> primary key keeps them, and any of the thirteen operations, under
  any schedule of faults. An entry that is in the log before and after has all its fields
  unchanged. The log afterwards is the log before, or the log before with one row added
  by a buy or a sell, or the log before without the rows of the instrument that a
  deletion with \<^verbatim>\<open>cascade=true\<close> removes. The ids stay distinct and below the next id.
\<close>

theorem trade_log_append_only:
  assumes "distinct (map t_id (trade_log (store w)))"
    and "\<forall>t \<in> set (trade_log (store w)). t_id t < next_trade_id (store w)"
  shows "(\<forall>t \<in> set (trade_log (store w)).
            \<forall>t' \<in> set (trade_log (store (snd (handle mul op w)))).
              t_id t' = t_id t \<longrightarrow> t' = t) \<and>
         (trade_log (store (snd (handle mul op w))) = trade_log (store w) \<or>
          (\<exists>ident b row.
             (op = Buy ident b \<or> op = Sell ident b) \<and>
             trade_log (store (snd (handle mul op w))) = trade_log (store w) @ [row]) \<or>
          (\<exists>ident query.
             op = DeleteInstrument ident query \<and> get_prop query ''cascade'' = JStr ''true'' \<and>
             trade_log (store (snd (handle mul op w))) =
               filter (\<lambda>t. t_instrument_id t \<noteq> ident) (trade_log (store w)))) \<and>
         distinct (map t_id (trade_log (store (snd (handle mul op w))))) \<and>
         (\<forall>t \<in> set (trade_log (store (snd (handle mul op w)))).
            t_id t < next_trade_id (store (snd (handle mul op w))))"
proof -
  let ?l = "trade_log (store w)" and ?l' = "trade_log (store (snd (handle mul op w)))"
  let ?n = "next_trade_id (store w)" and ?n' = "next_trade_id (store (snd (handle mul op w)))"
  have same_id: "t' = t" if "t \<in> set ?l" "t' \<in> set ?l" "t_id t' = t_id t" for t t'
    using that assms(1) by (meson distinct_map inj_onD)
  consider (same) "?l' = ?l" "?n' = ?n"
    | (added) ident b row where "op = Buy ident b \<or> op = Sell ident b" "t_id row = ?n"
        "?l' = ?l @ [row]" "?n' = ?n + 1"
    | (removed) ident query where "op = DeleteInstrument ident query"
        "get_prop query ''cascade'' = JStr ''true''"
        "?l' = filter (\<lambda>t. t_instrument_id t \<noteq> ident) ?l" "?n' = ?n"
    using log_of_handle [of mul op w] by (auto simp: log_of_def)
  then show ?thesis
  proof cases
    case same
    then show ?thesis using assms same_id by auto
  next
    case added
    have fresh: "t_id t \<noteq> t_id row" if "t \<in> set ?l" for t
      using that assms(2) added(2) by auto
    have "\<forall>t \<in> set ?l. \<forall>t' \<in> set ?l'. t_id t' = t_id t \<longrightarrow> t' = t"
    proof (intro ballI impI)
      fix t t'
      assume t: "t \<in> set ?l" and t': "t' \<in> set ?l'" and eq: "t_id t' = t_id t"
      from t' added(3) have "t' \<in> set ?l \<or> t' = row" by auto
      then show "t' = t"
      proof
        assume "t' \<in> set ?l"
        then show ?thesis using same_id [OF t _ eq] by simp
      next
        assume "t' = row"
        then show ?thesis using fresh [OF t] eq by simp
      qed
    qed
    moreover have "t_id row \<notin> t_id ` set ?l"
      using assms(2) added(2) by (auto simp: image_iff)
    then have "distinct (map t_id ?l')"
      using added(3) assms(1) by simp
    moreover have "\<forall>t \<in> set ?l'. t_id t < ?n'"
      using added assms(2) by auto
    ultimately show ?thesis using added(1,3) by blast
  next
    case removed
    have "\<forall>t \<in> set ?l. \<forall>t' \<in> set ?l'. t_id t' = t_id t \<longrightarrow> t' = t"
      using removed(3) same_id by auto
    moreover have "distinct (map t_id ?l')"
      using removed(3) assms(1) by (simp add: distinct_map_filter)
    moreover have "\<forall>t \<in> set ?l'. t_id t < ?n'"
      using removed assms(2) by auto
    ultimately show ?thesis using removed(1,2,3) by blast
  qed
qed

theorem trade_log_append_only_witness:
  "distinct (map t_id (trade_log (store (scenario [])))) \<and>
   map t_id (trade_log (store (scenario []))) = [1] \<and>
   next_trade_id (store (scenario [])) = 2 \<and>
   hd (trade_log (store (snd (handle (*) (Sell 1 \<lparr>quantity = Val 10, price = Val 100,
                                                  goal_id = Null\<rparr>) (scenario []))))) =
     hd (trade_log (store (scenario []))) \<and>
   length (trade_log (store (snd (handle (*) (Sell 1 \<lparr>quantity = Val 10, price = Val 100,
                                                      goal_id = Null\<rparr>) (scenario []))))) = 2"
  using trade_log_append_only
          [of "scenario []" "(*)" "Sell 1 \<lparr>quantity = Val 10, price = Val 100, goal_id = Null\<rparr>"]
        to_decimal_of_int [of 4 10] to_decimal_of_int [of 4 100] to_decimal_of_int [of 2 1000]
  by (simp add: post_sell_def trade_def record_trade_def scenario_def scenario_db_def
                db_query_def le_zero_def js_times_def or_null_def status_json
                select_instrument_id_symbol_name_def insert_trade_log_def
                select_trade_log_joined_by_id_def joined_def left_side_def)

section \<open>A goal id of 0\<close>

lemma issued_record_trade:
  "\<exists>xs. issued (snd (record_trade mul kind ident b w)) = issued w @ xs \<and>
        SELECT_goal_by_id \<notin> set xs"
  by (cases "faults w"; cases "tl (faults w)")
     (auto simp: record_trade_def db_query_def Let_def split: option.splits prod.splits sum.splits)

lemma record_trade_not_goal_not_found:
  "fst (record_trade mul kind ident b w) \<noteq> json 400 (error_body ''Goal not found'')"
  by (auto simp: record_trade_def json_def Let_def split: prod.splits sum.splits)

text \<open>
  C9. When a buy or sell request carries the goal id 0 (\<open>trade\<close> at \<open>BUY\<close> or
  \<open>SELL\<close>), the handler never sends the lookup of the goal and never answers
  \<^verbatim>\<open>Goal not found\<close>. When quantity and price are positive, the instrument exists and
  the three statements are answered, the response is 201, the statements sent are the
  lookup of the instrument, the insertion and the re-read, and the row added to the log
  has no goal.
\<close>

theorem goal_id_zero_skips_check:
  assumes "goal_id b = Val 0"
  shows "SELECT_goal_by_id \<notin>
           set (drop (length (issued w)) (issued (snd (trade mul kind ident b w)))) \<and>
         fst (trade mul kind ident b w) \<noteq> json 400 (error_body ''Goal not found'') \<and>
         (quantity b = Val q \<and> 0 < q \<and> price b = Val p \<and> 0 < p \<and>
          filter (\<lambda>i. i_id i = ident) (instruments (store w)) \<noteq> [] \<and>
          answered 3 (faults w) \<longrightarrow>
            status (fst (trade mul kind ident b w)) = 201 \<and>
            issued (snd (trade mul kind ident b w)) =
              issued w @ [SELECT_instrument_by_id, INSERT_trade_log,
                          SELECT_trade_log_joined_by_id] \<and>
            trade_log (store (snd (trade mul kind ident b w))) =
              trade_log (store w) @
                [\<lparr>t_id = next_trade_id (store w), t_instrument_id = ident, t_goal_id = None,
                  t_transaction_type = kind, t_quantity = to_decimal 4 q,
                  t_price = to_decimal 4 p, t_total_amount = to_decimal 2 (mul q p)\<rparr>])"
proof -
  have a: "SELECT_goal_by_id \<notin>
           set (drop (length (issued w)) (issued (snd (trade mul kind ident b w))))"
  proof -
    let ?w1 = "w\<lparr>faults := tl (faults w), issued := issued w @ [SELECT_instrument_by_id]\<rparr>"
    obtain xs where xs: "issued (snd (record_trade mul kind ident b ?w1)) = issued ?w1 @ xs"
        "SELECT_goal_by_id \<notin> set xs"
      using issued_record_trade [of mul kind ident b ?w1] by blast
    show ?thesis
      using xs
      by (cases "faults w")
         (auto simp: trade_def db_query_def Let_def assms select_instrument_id_symbol_name_def
               split: option.splits)
  qed
  have b: "fst (trade mul kind ident b w) \<noteq> json 400 (error_body ''Goal not found'')"
    using record_trade_not_goal_not_found
    by (auto simp: trade_def assms json_def error_body_def split: prod.splits sum.splits)
  have c: "status (fst (trade mul kind ident b w)) = 201 \<and>
            issued (snd (trade mul kind ident b w)) =
              issued w @ [SELECT_instrument_by_id, INSERT_trade_log,
                          SELECT_trade_log_joined_by_id] \<and>
            trade_log (store (snd (trade mul kind ident b w))) =
              trade_log (store w) @
                [\<lparr>t_id = next_trade_id (store w), t_instrument_id = ident, t_goal_id = None,
                  t_transaction_type = kind, t_quantity = to_decimal 4 q,
                  t_price = to_decimal 4 p, t_total_amount = to_decimal 2 (mul q p)\<rparr>]"
    if "quantity b = Val q" "0 < q" "price b = Val p" "0 < p"
       "filter (\<lambda>i. i_id i = ident) (instruments (store w)) \<noteq> []" "answered 3 (faults w)"
    using that
    by (cases "faults w"; cases "tl (faults w)"; cases "tl (tl (faults w))")
       (auto simp: trade_def record_trade_def db_query_def Let_def assms le_zero_def
                   js_times_def or_null_def status_json eval_nat_numeral
                   select_instrument_id_symbol_name_def insert_trade_log_def
                   select_trade_log_joined_by_id_def
             split: option.splits)
  show ?thesis using a b c by blast
qed

theorem goal_id_zero_skips_check_witness:
  "goal_id \<lparr>quantity = Val 10, price = Val 100, goal_id = Val 0\<rparr> = Val 0 \<and>
   filter (\<lambda>i. i_id i = 1) (instruments (store (scenario []))) \<noteq> [] \<and>
   answered 3 (faults (scenario [])) \<and>
   status (fst (post_sell (*) 1 \<lparr>quantity = Val 10, price = Val 100, goal_id = Val 0\<rparr>
                  (scenario []))) = 201 \<and>
   issued (snd (post_sell (*) 1 \<lparr>quantity = Val 10, price = Val 100, goal_id = Val 0\<rparr>
                  (scenario []))) =
     [SELECT_instrument_by_id, INSERT_trade_log, SELECT_trade_log_joined_by_id] \<and>
   map t_goal_id
     (trade_log (store (snd (post_sell (*) 1 \<lparr>quantity = Val 10, price = Val 100,
                                                goal_id = Val 0\<rparr> (scenario []))))) =
     [None, None]"
  using goal_id_zero_skips_check
          [of "\<lparr>quantity = Val 10, price = Val 100, goal_id = Val 0\<rparr>" "scenario []" "(*)" SELL 1
              10 100]
  by (simp add: post_sell_def scenario_def scenario_db_def eval_nat_numeral)

section \<open>The total of a trade\<close>

lemma floor_rat_numeral_div:
  "\<lfloor>(numeral a :: rat) / numeral b\<rfloor> = numeral a div numeral b"
  using floor_divide_of_int_eq [of "numeral a" "numeral b", where ?'a = rat] by simp

lemma double_mul_examples:
  "double_mul (7 / 20) (1 / 10) = 8749999999999999 / 250000000000000000"
  "double_mul 10 2400 = 24000"
  by (simp_all add: double_mul_def render_def digits_for_def to_double_def round_half_even_def
        floor_rat_numeral_div Let_def power_int_minus)

lemma to_decimal_examples:
  "to_decimal 4 (7 / 20) = 3500"
  "to_decimal 4 (1 / 10) = 1000"
  "to_decimal 2 (8749999999999999 / 250000000000000000) = 3"
  "to_decimal 2 (7 / 200) = 4"
  by (simp_all add: to_decimal_def round_half_away_def floor_rat_numeral_div)

lemma trade_creates_entry:
  assumes "quantity b = Val q" and "0 < q" and "price b = Val p" and "0 < p"
    and "filter (\<lambda>i. i_id i = ident) (instruments (store w)) \<noteq> []"
    and "truthy_int (goal_id b) \<longrightarrow>
           filter (\<lambda>g. Val (g_id g) = goal_id b) (goals (store w)) \<noteq> []"
    and "answered (if truthy_int (goal_id b) then 4 else 3) (faults w)"
  shows "status (fst (trade mul kind ident b w)) = 201 \<and>
         trade_log (store (snd (trade mul kind ident b w))) =
           trade_log (store w) @
             [\<lparr>t_id = next_trade_id (store w), t_instrument_id = ident,
               t_goal_id = (case or_null (goal_id b) of Val g \<Rightarrow> Some g | _ \<Rightarrow> None),
               t_transaction_type = kind, t_quantity = to_decimal 4 q,
               t_price = to_decimal 4 p, t_total_amount = to_decimal 2 (mul q p)\<rparr>]"
proof (cases "truthy_int (goal_id b)")
  case False
  then show ?thesis
    using assms
    by (cases "faults w"; cases "tl (faults w)"; cases "tl (tl (faults w))")
       (auto simp: trade_def record_trade_def db_query_def Let_def le_zero_def
                   js_times_def or_null_def status_json eval_nat_numeral
                   select_instrument_id_symbol_name_def insert_trade_log_def
                   select_trade_log_joined_by_id_def
             split: option.splits)
next
  case True
  then obtain g where g: "goal_id b = Val g" "g \<noteq> 0"
    by (cases "goal_id b") auto
  have some: "filter (\<lambda>x. g_id x = g) (goals (store w)) \<noteq> []"
    using assms(6) True by (simp add: g)
  show ?thesis
    using assms(1-5,7) some True
    by (cases "faults w"; cases "tl (faults w)"; cases "tl (tl (faults w))";
        cases "tl (tl (tl (faults w)))")
       (auto simp: trade_def record_trade_def db_query_def Let_def le_zero_def g
                   js_times_def or_null_def status_json eval_nat_numeral
                   select_instrument_id_symbol_name_def select_goal_id_def
                   insert_trade_log_def select_trade_log_joined_by_id_def
             split: option.splits)
qed

text \<open>
  C3, as the code has it. For a buy or sell request (\<open>trade\<close> at \<open>BUY\<close> or
  \<open>SELL\<close>) with positive quantity and price, an existing instrument, a goal id that is
  falsy or is the id of a goal, and answers to the statements the handler sends (four
  with a goal, three without), the response is 201 and exactly one row is added to the
  log. Its total is the product of the two doubles, as the driver
  writes it, rounded to the two places of the column; quantity and price are rounded to
  four places.
\<close>

theorem trade_total_amount:
  assumes "quantity b = Val q" and "0 < q" and "price b = Val p" and "0 < p"
    and "filter (\<lambda>i. i_id i = ident) (instruments (store w)) \<noteq> []"
    and "truthy_int (goal_id b) \<longrightarrow>
           filter (\<lambda>g. Val (g_id g) = goal_id b) (goals (store w)) \<noteq> []"
    and "answered (if truthy_int (goal_id b) then 4 else 3) (faults w)"
  shows "status (fst (trade double_mul kind ident b w)) = 201 \<and>
         trade_log (store (snd (trade double_mul kind ident b w))) =
           trade_log (store w) @
             [\<lparr>t_id = next_trade_id (store w), t_instrument_id = ident,
               t_goal_id = (case or_null (goal_id b) of Val g \<Rightarrow> Some g | _ \<Rightarrow> None),
               t_transaction_type = kind, t_quantity = to_decimal 4 q,
               t_price = to_decimal 4 p,
               t_total_amount = to_decimal 2 (double_mul q p)\<rparr>]"
  using trade_creates_entry [OF assms] .

theorem trade_total_amount_witness:
  "filter (\<lambda>i. i_id i = 1) (instruments (store (sample []))) \<noteq> [] \<and>
   truthy_int (Val 1) \<and>
   filter (\<lambda>g. Val (g_id g) = Val 1) (goals (store (sample []))) \<noteq> [] \<and>
   answered 4 (faults (sample [])) \<and>
   status (fst (post_sell double_mul 1 \<lparr>quantity = Val 10, price = Val 2400, goal_id = Val 1\<rparr>
                  (sample []))) = 201 \<and>
   trade_log (store (snd (post_sell double_mul 1
                            \<lparr>quantity = Val 10, price = Val 2400, goal_id = Val 1\<rparr>
                            (sample [])))) =
     trade_log (store (sample [])) @
       [\<lparr>t_id = 2, t_instrument_id = 1, t_goal_id = Some 1, t_transaction_type = SELL,
         t_quantity = 100000, t_price = 24000000, t_total_amount = 2400000\<rparr>]"
  using trade_total_amount
          [of "\<lparr>quantity = Val 10, price = Val 2400, goal_id = Val 1\<rparr>" 10 2400 1 "sample []" SELL]
        to_decimal_of_int [of 4 10] to_decimal_of_int [of 4 2400] to_decimal_of_int [of 2 24000]
  by (simp add: post_sell_def sample_def sample_db_def eval_nat_numeral or_null_def
                double_mul_examples)

text \<open>
  C3 as stated fails: a purchase of 0.35 at 0.1 is stored with the total 0.03, since the
  product of the two doubles is 0.034999999999999996; the exact product 0.035 rounds to
  0.04 in the column.
\<close>

theorem double_product_not_exact:
  "trade_log (store (snd (post_buy double_mul 1
                            \<lparr>quantity = Val (7 / 20), price = Val (1 / 10), goal_id = Undefined\<rparr>
                            (scenario [])))) =
     trade_log (store (scenario [])) @
       [\<lparr>t_id = 2, t_instrument_id = 1, t_goal_id = None, t_transaction_type = BUY,
         t_quantity = 3500, t_price = 1000, t_total_amount = 3\<rparr>] \<and>
   to_decimal 2 (7 / 20 * (1 / 10)) = 4"
  by (simp add: post_buy_def trade_def record_trade_def scenario_def scenario_db_def
                db_query_def le_zero_def js_times_def or_null_def
                select_instrument_id_symbol_name_def insert_trade_log_def
                select_trade_log_joined_by_id_def joined_def left_side_def
                double_mul_examples to_decimal_examples)

section \<open>What a trade returns\<close>

lemma replicate_numeral_unfold: "replicate (numeral k) x = x # replicate (pred_numeral k) x"
  by (simp add: numeral_eq_Suc)

lemma decimal_string_examples:
  "decimal_string 4 100000 = ''10.0000''"
  "decimal_string 4 1000000 = ''100.0000''"
  "decimal_string 2 100000 = ''1000.00''"
  by (simp_all add: decimal_string_def replicate_numeral_unfold)

lemma parse_decimal_examples:
  "parse_decimal ''10.0000'' = Some 10"
  "parse_decimal ''100.0000'' = Some 100"
  "parse_decimal ''1000.00'' = Some 1000"
  by (simp_all add: parse_decimal_def parse_unsigned_def digit_of_def)

lemma listed: "snd (post_instruments (xyz 100) \<lparr>store = empty_db, faults = [], issued = []\<rparr>) = listed"
  using to_decimal_of_int [of 4 100]
  by (simp add: post_instruments_def xyz_def empty_db_def db_query_def insert_instrument_def
        nullish_def property_def get_prop_def sql_text_def sql_number_def Let_def
        select_instrument_by_id_def listed_def scenario_db_def)

lemma bought:
  "post_buy (*) 1 \<lparr>quantity = Val 10, price = Val 100, goal_id = Undefined\<rparr> listed =
     (json 201 (JObject
       [(''id'', JNum 1), (''instrument_id'', JNum 1), (''goal_id'', JNull),
        (''transaction_type'', JStr ''BUY''), (''quantity'', JStr ''10.0000''),
        (''price'', JStr ''100.0000''), (''total_amount'', JStr ''1000.00''),
        (''instrument_symbol'', JStr ''XYZ''), (''instrument_name'', JStr ''XYZ Corp''),
        (''instrument_type'', JStr ''STOCK''), (''goal_name'', JNull)]),
      (scenario [])\<lparr>issued := [INSERT_instrument, SELECT_instrument_by_id, SELECT_instrument_by_id,
                     INSERT_trade_log, SELECT_trade_log_joined_by_id]\<rparr>)"
  using to_decimal_of_int [of 4 10] to_decimal_of_int [of 4 100] to_decimal_of_int [of 2 1000]
  by (simp add: post_buy_def trade_def record_trade_def listed_def scenario_def scenario_db_def
                db_query_def le_zero_def js_times_def or_null_def
                select_instrument_id_symbol_name_def insert_trade_log_def
                select_trade_log_joined_by_id_def
                joined_def left_side_def joined_row_def kind_name_def decimal_string_examples)

lemma listed_log:
  "body (fst (get_trade_log ((scenario [])\<lparr>issued := sent\<rparr>))) =
     JArray
       [JObject
          [(''id'', JNum 1), (''instrument_id'', JNum 1), (''goal_id'', JNull),
           (''transaction_type'', JStr ''BUY''), (''quantity'', JNum 10),
           (''price'', JNum 100), (''total_amount'', JNum 1000),
           (''instrument_symbol'', JStr ''XYZ''), (''instrument_name'', JStr ''XYZ Corp''),
           (''instrument_type'', JStr ''STOCK''), (''goal_name'', JNull)]]"
  by (simp add: get_trade_log_def scenario_def scenario_db_def db_query_def json_def
                select_trade_log_joined_def
                joined_def left_side_def joined_row_def kind_name_def decimal_string_examples
                with_number_def get_prop_def parse_decimal_examples)

text \<open>
  C5 fails on the code. In the scenario (create XYZ at 100, then buy 10 at 100; the
  product of 10 and 100 is exact) the response of the purchase carries quantity, price
  and total amount as the strings the driver renders decimal columns in, since the
  handler returns the re-read row as it is; the listing of the same entry carries them
  as numbers, since that handler applies \<^verbatim>\<open>Number\<close> to the three.
\<close>

theorem buy_returns_decimal_strings:
  "body (fst (post_buy (*) 1 \<lparr>quantity = Val 10, price = Val 100, goal_id = Undefined\<rparr>
                (snd (post_instruments (xyz 100)
                        \<lparr>store = empty_db, faults = [], issued = []\<rparr>)))) =
     JObject
       [(''id'', JNum 1), (''instrument_id'', JNum 1), (''goal_id'', JNull),
        (''transaction_type'', JStr ''BUY''), (''quantity'', JStr ''10.0000''),
        (''price'', JStr ''100.0000''), (''total_amount'', JStr ''1000.00''),
        (''instrument_symbol'', JStr ''XYZ''), (''instrument_name'', JStr ''XYZ Corp''),
        (''instrument_type'', JStr ''STOCK''), (''goal_name'', JNull)] \<and>
   body (fst (get_trade_log
                (snd (post_buy (*) 1 \<lparr>quantity = Val 10, price = Val 100, goal_id = Undefined\<rparr>
                        (snd (post_instruments (xyz 100)
                                \<lparr>store = empty_db, faults = [], issued = []\<rparr>)))))) =
     JArray
       [JObject
          [(''id'', JNum 1), (''instrument_id'', JNum 1), (''goal_id'', JNull),
           (''transaction_type'', JStr ''BUY''), (''quantity'', JNum 10),
           (''price'', JNum 100), (''total_amount'', JNum 1000),
           (''instrument_symbol'', JStr ''XYZ''), (''instrument_name'', JStr ''XYZ Corp''),
           (''instrument_type'', JStr ''STOCK''), (''goal_name'', JNull)]]"
  by (simp add: listed bought listed_log json_def)

text \<open>
  So the entry a purchase returns is not the entry the listing shows for it.
\<close>

theorem buy_returns_decimal_strings_witness:
  "JArray
     [body (fst (post_buy (*) 1 \<lparr>quantity = Val 10, price = Val 100, goal_id = Undefined\<rparr>
                   (snd (post_instruments (xyz 100)
                           \<lparr>store = empty_db, faults = [], issued = []\<rparr>))))] \<noteq>
   body (fst (get_trade_log
                (snd (post_buy (*) 1 \<lparr>quantity = Val 10, price = Val 100, goal_id = Undefined\<rparr>
                        (snd (post_instruments (xyz 100)
                                \<lparr>store = empty_db, faults = [], issued = []\<rparr>))))))"
  using buy_returns_decimal_strings by simp

end
